theory Spec2Isabelle
  imports Complex_Main
begin

section \<open>Values exchanged with the client\<close>

text \<open>
  The control channel carries JSON. A decoded message is a Python value; the
  model keeps the JSON shapes. A dict is an association list, looked up with
  \<open>map_of\<close>. Python floats are idealised as reals: the only arithmetic the
  server itself does on them is the subtraction of two clock readings.
\<close>

datatype json =
    JNull
  | JBool bool
  | JNum real
  | JStr string
  | JArr "json list"
  | JObj "(string \<times> json) list"

type_synonym dict = "(string \<times> json) list"

type_synonym bytes = "nat list"

datatype error = KeyError | TypeError | AttributeError | ValidationError | ReceiveError | DecodeError

text \<open>\<open>k in d\<close> and \<open>d.get(k)\<close> on a dict.\<close>

definition has_key :: "string \<Rightarrow> dict \<Rightarrow> bool" where
  "has_key k d = (map_of d k \<noteq> None)"

definition get :: "dict \<Rightarrow> string \<Rightarrow> json" where
  "get d k = (case map_of d k of None \<Rightarrow> JNull | Some v \<Rightarrow> v)"

text \<open>\<open>data["status"]\<close> on a decoded message: only a dict can be indexed by a string.\<close>

fun subscript :: "json \<Rightarrow> string \<Rightarrow> error + json" where
  "subscript (JObj d) k = (case map_of d k of None \<Rightarrow> Inl KeyError | Some v \<Rightarrow> Inr v)"
| "subscript _ k = Inl TypeError"

definition timeout_msg :: json where
  "timeout_msg = JObj [(''status'', JStr ''timeout''), (''message'', JStr ''Your session has ended'')]"

definition send_frame_msg :: json where
  "send_frame_msg = JObj [(''status'', JStr ''send_frame'')]"

definition wait_msg :: json where
  "wait_msg = JObj [(''status'', JStr ''wait'')]"

section \<open>The state held by the App object\<close>

text \<open>
  \<open>App.__init__\<close> creates one input processor, one acid processor, one zoom
  oscillator, one shift oscillator and one frequency zoom controller and
  stores them on \<open>self\<close>. Every handler is a closure over that one \<open>self\<close>.
\<close>

text \<open>
  Modelled from the spec: \<open>InputImageProcessor\<close> and \<open>AcidProcessor\<close> come
  from \<open>modules.acid_processor\<close>, which is not among the sources. Each
  \<open>set_*\<close> method stores its argument as the current direct-override value
  of the field it names, and \<open>AcidProcessor.update\<close> stores the image as the
  feedback buffer.
\<close>

record input_processor =
  human_seg :: json
  resizing_factor_humanseg :: json
  blur :: json
  brightness :: json
  infrared_colorize :: json

record 'img acid_processor =
  acid_strength :: json
  coef_noise :: json
  acid_tracers :: json
  acid_strength_foreground :: json
  zoom_factor :: json
  x_shift :: json
  y_shift :: json
  do_acid_wobblers :: json
  color_matching :: json
  feedback :: "'img option"

text \<open>
  The oscillators and the frequency zoom controller keep a state of their own
  (\<open>'zo\<close>, \<open>'so\<close>, \<open>'fc\<close>) that \<open>main.py\<close> never looks into.
\<close>

record ('zo, 'so, 'fc, 'img) app =
  use_acid_processor :: bool
  use_background_removal :: bool
  input_processor :: input_processor
  acid_processor :: "'img acid_processor"
  zoom_oscillator :: 'zo
  shift_oscillator :: 'so
  frequency_zoom_controller :: 'fc

record args =
  arg_timeout :: real
  arg_safety_checker :: bool

text \<open>
  A \<open>SimpleNamespace\<close> of pipeline parameters: the validated fields and the
  \<open>image\<close> attribute, which exists only once the control loop has set it.
  \<open>SimpleNamespace()\<close> has an empty \<open>__dict__\<close>.
\<close>

record 'img namespace =
  ns_fields :: dict
  ns_image :: "'img option"

definition empty_namespace :: "'img namespace" where
  "empty_namespace = \<lparr>ns_fields = [], ns_image = None\<rparr>"

section \<open>Collaborators\<close>

text \<open>
  What \<open>main.py\<close> calls but does not define is a parameter of the model: the
  methods of the oscillators and of the frequency zoom controller, the
  pipeline, the image helpers and the safety checker. A method that mutates
  its object returns the new object state. \<open>fc_amplify\<close> stands for
  \<open>(amplifying_factor * binned_fft).tolist()\<close>, \<open>InputParams\<close> for
  \<open>pipeline.InputParams(**params).dict()\<close> (\<open>None\<close> when validation raises),
  \<open>bytes_to_pil\<close> returns \<open>None\<close> when decoding raises. Logging and debug
  prints are left out.
\<close>

record ('zo, 'so, 'fc, 'bins, 'img) collab =
  zo_enabled :: "'zo \<Rightarrow> bool"
  zo_update :: "'zo \<Rightarrow> json \<times> 'zo"
  zo_set_enabled :: "json \<Rightarrow> 'zo \<Rightarrow> 'zo"
  so_enabled :: "'so \<Rightarrow> bool"
  so_update :: "'so \<Rightarrow> (json \<times> json) \<times> 'so"
  so_set_enabled :: "json \<Rightarrow> 'so \<Rightarrow> 'so"
  so_set_x_increment :: "json \<Rightarrow> 'so \<Rightarrow> 'so"
  so_set_y_increment :: "json \<Rightarrow> 'so \<Rightarrow> 'so"
  fc_enabled :: "'fc \<Rightarrow> bool"
  fc_amplify :: "'fc \<Rightarrow> 'bins \<Rightarrow> json"
  fc_process_frequency_bins :: "json \<Rightarrow> 'fc \<Rightarrow> json \<times> 'fc"
  fc_set_sensitivity :: "json \<Rightarrow> json \<Rightarrow> 'fc \<Rightarrow> 'fc"
  input_mode :: string
  InputParams :: "dict \<Rightarrow> dict option"
  bytes_to_pil :: "bytes \<Rightarrow> 'img option"
  ip_process :: "input_processor \<Rightarrow> 'img \<Rightarrow> 'img \<times> 'img"
  ap_process_input :: "'img acid_processor \<Rightarrow> 'img \<Rightarrow> 'img \<Rightarrow> 'img"
  remove_background :: "'img \<Rightarrow> 'img"
  predict :: "'img namespace \<Rightarrow> 'img option"
  run_safety_checker :: "'img option \<Rightarrow> 'img option \<times> bool"
  pil_to_frame :: "'img \<Rightarrow> bytes"

section \<open>Setters\<close>

definition set_zoom_factor :: "json \<Rightarrow> ('zo, 'so, 'fc, 'img) app \<Rightarrow> ('zo, 'so, 'fc, 'img) app" where
  "set_zoom_factor v a = a\<lparr>acid_processor := (acid_processor a)\<lparr>zoom_factor := v\<rparr>\<rparr>"

definition set_x_shift :: "json \<Rightarrow> ('zo, 'so, 'fc, 'img) app \<Rightarrow> ('zo, 'so, 'fc, 'img) app" where
  "set_x_shift v a = a\<lparr>acid_processor := (acid_processor a)\<lparr>x_shift := v\<rparr>\<rparr>"

definition set_y_shift :: "json \<Rightarrow> ('zo, 'so, 'fc, 'img) app \<Rightarrow> ('zo, 'so, 'fc, 'img) app" where
  "set_y_shift v a = a\<lparr>acid_processor := (acid_processor a)\<lparr>y_shift := v\<rparr>\<rparr>"

definition set_acid_strength :: "json \<Rightarrow> ('zo, 'so, 'fc, 'img) app \<Rightarrow> ('zo, 'so, 'fc, 'img) app" where
  "set_acid_strength v a = a\<lparr>acid_processor := (acid_processor a)\<lparr>acid_strength := v\<rparr>\<rparr>"

definition set_coef_noise :: "json \<Rightarrow> ('zo, 'so, 'fc, 'img) app \<Rightarrow> ('zo, 'so, 'fc, 'img) app" where
  "set_coef_noise v a = a\<lparr>acid_processor := (acid_processor a)\<lparr>coef_noise := v\<rparr>\<rparr>"

definition set_acid_tracers :: "json \<Rightarrow> ('zo, 'so, 'fc, 'img) app \<Rightarrow> ('zo, 'so, 'fc, 'img) app" where
  "set_acid_tracers v a = a\<lparr>acid_processor := (acid_processor a)\<lparr>acid_tracers := v\<rparr>\<rparr>"

definition set_acid_strength_foreground :: "json \<Rightarrow> ('zo, 'so, 'fc, 'img) app \<Rightarrow> ('zo, 'so, 'fc, 'img) app" where
  "set_acid_strength_foreground v a = a\<lparr>acid_processor := (acid_processor a)\<lparr>acid_strength_foreground := v\<rparr>\<rparr>"

definition set_do_acid_wobblers :: "json \<Rightarrow> ('zo, 'so, 'fc, 'img) app \<Rightarrow> ('zo, 'so, 'fc, 'img) app" where
  "set_do_acid_wobblers v a = a\<lparr>acid_processor := (acid_processor a)\<lparr>do_acid_wobblers := v\<rparr>\<rparr>"

definition set_color_matching :: "json \<Rightarrow> ('zo, 'so, 'fc, 'img) app \<Rightarrow> ('zo, 'so, 'fc, 'img) app" where
  "set_color_matching v a = a\<lparr>acid_processor := (acid_processor a)\<lparr>color_matching := v\<rparr>\<rparr>"

definition acid_update :: "'img \<Rightarrow> ('zo, 'so, 'fc, 'img) app \<Rightarrow> ('zo, 'so, 'fc, 'img) app" where
  "acid_update i a = a\<lparr>acid_processor := (acid_processor a)\<lparr>feedback := Some i\<rparr>\<rparr>"

definition set_human_seg :: "json \<Rightarrow> ('zo, 'so, 'fc, 'img) app \<Rightarrow> ('zo, 'so, 'fc, 'img) app" where
  "set_human_seg v a = a\<lparr>input_processor := (input_processor a)\<lparr>human_seg := v\<rparr>\<rparr>"

definition set_resizing_factor_humanseg :: "json \<Rightarrow> ('zo, 'so, 'fc, 'img) app \<Rightarrow> ('zo, 'so, 'fc, 'img) app" where
  "set_resizing_factor_humanseg v a = a\<lparr>input_processor := (input_processor a)\<lparr>resizing_factor_humanseg := v\<rparr>\<rparr>"

definition set_blur :: "json \<Rightarrow> ('zo, 'so, 'fc, 'img) app \<Rightarrow> ('zo, 'so, 'fc, 'img) app" where
  "set_blur v a = a\<lparr>input_processor := (input_processor a)\<lparr>blur := v\<rparr>\<rparr>"

definition set_brightness :: "json \<Rightarrow> ('zo, 'so, 'fc, 'img) app \<Rightarrow> ('zo, 'so, 'fc, 'img) app" where
  "set_brightness v a = a\<lparr>input_processor := (input_processor a)\<lparr>brightness := v\<rparr>\<rparr>"

definition set_infrared_colorize :: "json \<Rightarrow> ('zo, 'so, 'fc, 'img) app \<Rightarrow> ('zo, 'so, 'fc, 'img) app" where
  "set_infrared_colorize v a = a\<lparr>input_processor := (input_processor a)\<lparr>infrared_colorize := v\<rparr>\<rparr>"

text \<open>\<open>if k in settings: f(settings[k])\<close>.\<close>

definition on_key :: "string \<Rightarrow> dict \<Rightarrow> (json \<Rightarrow> 'a \<Rightarrow> 'a) \<Rightarrow> 'a \<Rightarrow> 'a" where
  "on_key k s f a = (case map_of s k of None \<Rightarrow> a | Some v \<Rightarrow> f v a)"

section \<open>\<open>App._update_acid_settings\<close>\<close>

text \<open>
  The method is four runs of conditional setter calls, each under a comment
  of its own in the source: input processor settings, acid processor
  settings, frequency zoom controller settings, test oscillators.
\<close>

definition update_input_settings :: "dict \<Rightarrow> ('zo, 'so, 'fc, 'img) app \<Rightarrow> ('zo, 'so, 'fc, 'img) app" where
  "update_input_settings s a0 =
    (let a = on_key ''do_human_seg'' s set_human_seg a0;
         a = on_key ''resizing_factor'' s set_resizing_factor_humanseg a;
         a = on_key ''do_blur'' s set_blur a;
         a = on_key ''brightness'' s set_brightness a;
         a = on_key ''do_infrared_colorize'' s set_infrared_colorize a
     in a)"

definition update_acid_fields :: "dict \<Rightarrow> ('zo, 'so, 'fc, 'img) app \<Rightarrow> ('zo, 'so, 'fc, 'img) app" where
  "update_acid_fields s a0 =
    (let a = on_key ''acid_strength'' s set_acid_strength a0;
         a = on_key ''coef_noise'' s set_coef_noise a;
         a = on_key ''do_acid_tracers'' s set_acid_tracers a;
         a = on_key ''acid_strength_foreground'' s set_acid_strength_foreground a;
         a = (if has_key ''zoom_factor'' s \<and> \<not> has_key ''binned_fft'' s
              then set_zoom_factor (get s ''zoom_factor'') a else a);
         a = on_key ''x_shift'' s set_x_shift a;
         a = on_key ''y_shift'' s set_y_shift a;
         a = on_key ''do_acid_wobblers'' s set_do_acid_wobblers a;
         a = on_key ''color_matching'' s set_color_matching a
     in a)"

definition update_sensitivity ::
  "('zo, 'so, 'fc, 'bins, 'img) collab \<Rightarrow> dict \<Rightarrow> ('zo, 'so, 'fc, 'img) app \<Rightarrow> ('zo, 'so, 'fc, 'img) app" where
  "update_sensitivity env s a =
    (if has_key ''low_bin_sensitivity'' s \<or> has_key ''high_bin_sensitivity'' s
     then a\<lparr>frequency_zoom_controller :=
             fc_set_sensitivity env (get s ''low_bin_sensitivity'') (get s ''high_bin_sensitivity'')
               (frequency_zoom_controller a)\<rparr>
     else a)"

definition update_test_oscillators ::
  "('zo, 'so, 'fc, 'bins, 'img) collab \<Rightarrow> dict \<Rightarrow> ('zo, 'so, 'fc, 'img) app \<Rightarrow> ('zo, 'so, 'fc, 'img) app" where
  "update_test_oscillators env s a0 =
    (let a = on_key ''use_test_zoom'' s
               (\<lambda>v a. a\<lparr>zoom_oscillator := zo_set_enabled env v (zoom_oscillator a)\<rparr>) a0;
         a = on_key ''use_test_shift'' s
               (\<lambda>v a. a\<lparr>shift_oscillator := so_set_enabled env v (shift_oscillator a)\<rparr>) a;
         a = on_key ''test_x_shift_increment'' s
               (\<lambda>v a. a\<lparr>shift_oscillator := so_set_x_increment env v (shift_oscillator a)\<rparr>) a;
         a = on_key ''test_y_shift_increment'' s
               (\<lambda>v a. a\<lparr>shift_oscillator := so_set_y_increment env v (shift_oscillator a)\<rparr>) a
     in a)"

definition update_acid_settings ::
  "('zo, 'so, 'fc, 'bins, 'img) collab \<Rightarrow> dict \<Rightarrow> ('zo, 'so, 'fc, 'img) app \<Rightarrow> ('zo, 'so, 'fc, 'img) app" where
  "update_acid_settings env s a =
    (if \<not> use_acid_processor a then a
     else update_test_oscillators env s
            (update_sensitivity env s (update_acid_fields s (update_input_settings s a))))"

section \<open>The control loop, \<open>handle_websocket_data\<close>\<close>

text \<open>Lines 189 to 215: the modulation sources that run at the top of every iteration.\<close>

definition apply_oscillators ::
  "('zo, 'so, 'fc, 'bins, 'img) collab \<Rightarrow> 'bins \<Rightarrow> ('zo, 'so, 'fc, 'img) app \<Rightarrow> ('zo, 'so, 'fc, 'img) app" where
  "apply_oscillators env fft a0 =
    (if \<not> use_acid_processor a0 then a0
     else
       let a = (if zo_enabled env (zoom_oscillator a0)
                then (case zo_update env (zoom_oscillator a0) of
                        (zoom_value, zo') \<Rightarrow> set_zoom_factor zoom_value (a0\<lparr>zoom_oscillator := zo'\<rparr>))
                else a0);
           a = (if so_enabled env (shift_oscillator a)
                then (case so_update env (shift_oscillator a) of
                        ((xs, ys), so') \<Rightarrow> set_y_shift ys (set_x_shift xs (a\<lparr>shift_oscillator := so'\<rparr>)))
                else a);
           a = (if fc_enabled env (frequency_zoom_controller a)
                then (let use_binned_fft = fc_amplify env (frequency_zoom_controller a) fft
                      in case fc_process_frequency_bins env use_binned_fft (frequency_zoom_controller a) of
                           (zoom_value, fc') \<Rightarrow> set_zoom_factor zoom_value (a\<lparr>frequency_zoom_controller := fc'\<rparr>))
                else a)
       in a)"

text \<open>
  Lines 227 to 241, for a parameter message that carries \<open>acid_settings\<close>:
  the settings are applied, then the client's frequency bins are fed to the
  controller unless the zoom oscillator is enabled at that point.
\<close>

definition apply_acid_settings ::
  "('zo, 'so, 'fc, 'bins, 'img) collab \<Rightarrow> dict \<Rightarrow> ('zo, 'so, 'fc, 'img) app \<Rightarrow> ('zo, 'so, 'fc, 'img) app" where
  "apply_acid_settings env s a0 =
    (let a = update_acid_settings env s a0
     in if has_key ''binned_fft'' s \<and> use_acid_processor a \<and> \<not> zo_enabled env (zoom_oscillator a)
        then (let binned_fft = get s ''binned_fft''
              in if binned_fft \<noteq> JNull
                 then (case fc_process_frequency_bins env binned_fft (frequency_zoom_controller a) of
                         (new_zoom, fc') \<Rightarrow> set_zoom_factor new_zoom (a\<lparr>frequency_zoom_controller := fc'\<rparr>))
                 else a)
        else a)"

text \<open>\<open>App._apply_acid_processing\<close> and \<open>App._apply_background_removal\<close>.\<close>

definition apply_acid_processing ::
  "('zo, 'so, 'fc, 'bins, 'img) collab \<Rightarrow> ('zo, 'so, 'fc, 'img) app \<Rightarrow> 'img \<Rightarrow> 'img" where
  "apply_acid_processing env a pil_image =
    (case ip_process env (input_processor a) pil_image of
       (processed_img, seg_mask) \<Rightarrow> ap_process_input env (acid_processor a) processed_img seg_mask)"

definition apply_background_removal ::
  "('zo, 'so, 'fc, 'bins, 'img) collab \<Rightarrow> 'img \<Rightarrow> 'img" where
  "apply_background_removal env pil_image = remove_background env pil_image"

text \<open>
  What one iteration of the loop reads from outside. An \<open>await\<close> on the
  connection yields a value, raises (the connection broke, the text is not
  JSON), or never completes because the client sends nothing.

  The parameter message is a JSON object; its optional \<open>acid_settings\<close>
  entry is itself an object, kept apart from the other entries.
\<close>

datatype 'a recv = Got 'a | Raised | Pending

record params_msg =
  p_acid_settings :: "dict option"
  p_fields :: dict

record 'bins tick_in =
  t_now :: real
  t_fft :: 'bins
  t_data :: "json recv"
  t_params :: "params_msg recv"
  t_image :: "bytes recv"

text \<open>
  What one iteration does to the connection manager, in order, and how it
  ends: the loop goes round again, the handler returns, the \<open>except\<close> clause
  runs (it disconnects the user and the handler ends), or the iteration is
  still waiting for the client.
\<close>

datatype 'img call = SendJson json | Disconnect | UpdateData "'img namespace"

datatype status = Continue | Returned | Failed error | Blocked

type_synonym ('zo, 'so, 'fc, 'img) outcome = "('zo, 'so, 'fc, 'img) app \<times> 'img call list \<times> status"

definition raise :: "error \<Rightarrow> ('zo, 'so, 'fc, 'img) app \<Rightarrow> ('zo, 'so, 'fc, 'img) outcome" where
  "raise e a = (a, [Disconnect], Failed e)"

text \<open>
  Lines 245 to 262: the image payload, the slot write and the acknowledgement.
  A decoded PIL image is truthy, so \<open>and params.image\<close> does not show.
\<close>

definition store_params ::
  "('zo, 'so, 'fc, 'bins, 'img) collab \<Rightarrow> 'bins tick_in \<Rightarrow> dict \<Rightarrow> ('zo, 'so, 'fc, 'img) app \<Rightarrow>
   ('zo, 'so, 'fc, 'img) outcome" where
  "store_params env inp validated a =
    (if input_mode env = ''image''
     then (case t_image inp of
             Pending \<Rightarrow> (a, [], Blocked)
           | Raised \<Rightarrow> raise ReceiveError a
           | Got image_data \<Rightarrow>
               if length image_data = 0
               then (a, [SendJson send_frame_msg], Continue)
               else (case bytes_to_pil env image_data of
                       None \<Rightarrow> raise DecodeError a
                     | Some img \<Rightarrow>
                         let img = (if use_acid_processor a then apply_acid_processing env a img else img);
                             img = (if use_background_removal a then apply_background_removal env img else img)
                         in (a, [UpdateData \<lparr>ns_fields = validated, ns_image = Some img\<rparr>, SendJson wait_msg],
                             Continue)))
     else (a, [UpdateData \<lparr>ns_fields = validated, ns_image = None\<rparr>, SendJson wait_msg], Continue))"

text \<open>
  Lines 227 to 229 and 243: \<open>acid_settings\<close> is popped from the parameters
  and applied only when the acid processor is in use; otherwise it stays among
  the parameters handed to \<open>pipeline.InputParams\<close>.
\<close>

definition fuse ::
  "('zo, 'so, 'fc, 'bins, 'img) collab \<Rightarrow> params_msg \<Rightarrow> ('zo, 'so, 'fc, 'img) app \<Rightarrow> ('zo, 'so, 'fc, 'img) app" where
  "fuse env m a =
    (case p_acid_settings m of
       None \<Rightarrow> a
     | Some s \<Rightarrow> if use_acid_processor a then apply_acid_settings env s a else a)"

definition pipeline_params :: "('zo, 'so, 'fc, 'img) app \<Rightarrow> params_msg \<Rightarrow> dict" where
  "pipeline_params a m =
    (case p_acid_settings m of
       None \<Rightarrow> p_fields m
     | Some s \<Rightarrow> if use_acid_processor a then p_fields m else (''acid_settings'', JObj s) # p_fields m)"

text \<open>Lines 219 to 243: a \<open>next_frame\<close> message is followed by the parameter message.\<close>

definition next_frame ::
  "('zo, 'so, 'fc, 'bins, 'img) collab \<Rightarrow> 'bins tick_in \<Rightarrow> ('zo, 'so, 'fc, 'img) app \<Rightarrow>
   ('zo, 'so, 'fc, 'img) outcome" where
  "next_frame env inp a =
    (case t_params inp of
       Pending \<Rightarrow> (a, [], Blocked)
     | Raised \<Rightarrow> raise ReceiveError a
     | Got m \<Rightarrow>
         (let a' = fuse env m a
          in case InputParams env (pipeline_params a m) of
               None \<Rightarrow> raise ValidationError a'
             | Some validated \<Rightarrow> store_params env inp validated a'))"

text \<open>Lines 178 to 262: the iteration after the timeout check.\<close>

definition tick_body ::
  "('zo, 'so, 'fc, 'bins, 'img) collab \<Rightarrow> 'bins tick_in \<Rightarrow> ('zo, 'so, 'fc, 'img) app \<Rightarrow>
   ('zo, 'so, 'fc, 'img) outcome" where
  "tick_body env inp a0 =
    (let a = apply_oscillators env (t_fft inp) a0
     in case t_data inp of
          Pending \<Rightarrow> (a, [], Blocked)
        | Raised \<Rightarrow> raise ReceiveError a
        | Got d \<Rightarrow>
            (case subscript d ''status'' of
               Inl e \<Rightarrow> raise e a
             | Inr st \<Rightarrow> if st = JStr ''next_frame'' then next_frame env inp a else (a, [], Continue)))"

text \<open>Lines 164 to 167: the inactivity test.\<close>

definition expired :: "args \<Rightarrow> real \<Rightarrow> real \<Rightarrow> bool" where
  "expired cfg last_time now = (arg_timeout cfg > 0 \<and> now - last_time > arg_timeout cfg)"

text \<open>Lines 164 to 176 and the body: one iteration of \<open>while True\<close>.\<close>

definition control_tick ::
  "args \<Rightarrow> ('zo, 'so, 'fc, 'bins, 'img) collab \<Rightarrow> real \<Rightarrow> 'bins tick_in \<Rightarrow> ('zo, 'so, 'fc, 'img) app \<Rightarrow>
   ('zo, 'so, 'fc, 'img) outcome" where
  "control_tick cfg env last_time inp a =
    (if expired cfg last_time (t_now inp)
     then (a, [SendJson timeout_msg, Disconnect], Returned)
     else tick_body env inp a)"

text \<open>
  The loop over the iterations that the inputs describe. \<open>last_time\<close> is
  read once, before the loop, and passed unchanged to every iteration. The
  loop stops at the first iteration that does not end in \<open>Continue\<close>; when
  the inputs run out the result says \<open>Continue\<close>: the loop is still going.
\<close>

fun control_loop ::
  "args \<Rightarrow> ('zo, 'so, 'fc, 'bins, 'img) collab \<Rightarrow> real \<Rightarrow> 'bins tick_in list \<Rightarrow> ('zo, 'so, 'fc, 'img) app \<Rightarrow>
   ('zo, 'so, 'fc, 'img) outcome" where
  "control_loop cfg env last_time [] a = (a, [], Continue)"
| "control_loop cfg env last_time (inp # inps) a =
    (case control_tick cfg env last_time inp a of
       (a', calls, Continue) \<Rightarrow>
         (case control_loop cfg env last_time inps a' of
            (a'', calls', st) \<Rightarrow> (a'', calls @ calls', st))
     | (a', calls, st) \<Rightarrow> (a', calls, st))"

text \<open>
  \<open>handle_websocket_data\<close>: an unknown user ends the handler at once;
  otherwise the clock is read and the loop starts.
\<close>

definition handle_websocket_data ::
  "args \<Rightarrow> ('zo, 'so, 'fc, 'bins, 'img) collab \<Rightarrow> bool \<Rightarrow> real \<Rightarrow> 'bins tick_in list \<Rightarrow>
   ('zo, 'so, 'fc, 'img) app \<Rightarrow> ('zo, 'so, 'fc, 'img) outcome" where
  "handle_websocket_data cfg env check_user start inps a =
    (if \<not> check_user then (a, [], Returned) else control_loop cfg env start inps a)"

section \<open>The streaming loop, \<open>generate\<close>\<close>

text \<open>
  What one iteration does, in order: messages sent to the client, the throttle
  sleep, invocations of the pipeline and frames yielded to the transport.
  The value read from the latest-parameters slot is \<open>None\<close> or a namespace.
\<close>

datatype 'img event = Send json | Sleep | Predict "'img namespace" | Yield bytes

type_synonym ('zo, 'so, 'fc, 'img) stream_state = "('zo, 'so, 'fc, 'img) app \<times> 'img namespace"

text \<open>
  Lines 280 to 313. The test on line 285 reads \<open>params.__dict__\<close> before it
  asks whether \<open>params\<close> is \<open>None\<close>, and \<open>None\<close> has no \<open>__dict__\<close>.
\<close>

definition stream_tick ::
  "args \<Rightarrow> ('zo, 'so, 'fc, 'bins, 'img) collab \<Rightarrow> bool \<Rightarrow> 'img namespace option \<Rightarrow>
   ('zo, 'so, 'fc, 'img) stream_state \<Rightarrow> ('zo, 'so, 'fc, 'img) stream_state \<times> 'img event list \<times> status" where
  "stream_tick cfg env firefox slot st =
    (case st of (a, last_params) \<Rightarrow>
      (case slot of
         None \<Rightarrow> (st, [Send send_frame_msg], Failed AttributeError)
       | Some params \<Rightarrow>
           if params = last_params
           then (st, [Send send_frame_msg, Sleep], Continue)
           else
             let image = predict env params;
                 image = (if arg_safety_checker cfg
                          then (case run_safety_checker env image of
                                  (checked, has_nsfw_concept) \<Rightarrow> if has_nsfw_concept then None else checked)
                          else image)
             in (case image of
                   None \<Rightarrow> ((a, params), [Send send_frame_msg, Predict params], Continue)
                 | Some img \<Rightarrow>
                     (let a' = (if use_acid_processor a then acid_update img a else a);
                          frame = pil_to_frame env img
                      in ((a', params),
                          [Send send_frame_msg, Predict params, Yield frame]
                            @ (if \<not> firefox then [Yield frame] else []),
                          Continue)))))"

fun stream_loop ::
  "args \<Rightarrow> ('zo, 'so, 'fc, 'bins, 'img) collab \<Rightarrow> bool \<Rightarrow> 'img namespace option list \<Rightarrow>
   ('zo, 'so, 'fc, 'img) stream_state \<Rightarrow> ('zo, 'so, 'fc, 'img) stream_state \<times> 'img event list \<times> status" where
  "stream_loop cfg env firefox [] st = (st, [], Continue)"
| "stream_loop cfg env firefox (slot # slots) st =
    (case stream_tick cfg env firefox slot st of
       (st', evs, Continue) \<Rightarrow>
         (case stream_loop cfg env firefox slots st' of
            (st'', evs', r) \<Rightarrow> (st'', evs @ evs', r))
     | (st', evs, r) \<Rightarrow> (st', evs, r))"

definition generate ::
  "args \<Rightarrow> ('zo, 'so, 'fc, 'bins, 'img) collab \<Rightarrow> bool \<Rightarrow> 'img namespace option list \<Rightarrow>
   ('zo, 'so, 'fc, 'img) app \<Rightarrow> ('zo, 'so, 'fc, 'img) stream_state \<times> 'img event list \<times> status" where
  "generate cfg env firefox slots a = stream_loop cfg env firefox slots (a, empty_namespace)"

definition invocations :: "'img event list \<Rightarrow> nat" where
  "invocations evs = length (filter (\<lambda>e. case e of Predict _ \<Rightarrow> True | _ \<Rightarrow> False) evs)"

definition frames :: "'img event list \<Rightarrow> bytes list" where
  "frames evs = concat (map (\<lambda>e. case e of Yield f \<Rightarrow> [f] | _ \<Rightarrow> []) evs)"

section \<open>Several sessions on one App\<close>

text \<open>
  \<open>app = App(config, pipeline).app\<close> builds the one App of the process. Each
  websocket connection runs \<open>handle_websocket_data\<close> for its own user id
  against that App. The server state is the App's state and, per user id,
  what has been done to that user's connection so far.
\<close>

record ('zo, 'so, 'fc, 'img) server =
  srv_app :: "('zo, 'so, 'fc, 'img) app"
  srv_calls :: "nat \<Rightarrow> 'img call list"

definition session_tick ::
  "args \<Rightarrow> ('zo, 'so, 'fc, 'bins, 'img) collab \<Rightarrow> nat \<Rightarrow> real \<Rightarrow> 'bins tick_in \<Rightarrow>
   ('zo, 'so, 'fc, 'img) server \<Rightarrow> ('zo, 'so, 'fc, 'img) server" where
  "session_tick cfg env user_id last_time inp srv =
    (case control_tick cfg env last_time inp (srv_app srv) of
       (a', calls, st) \<Rightarrow>
         srv\<lparr>srv_app := a', srv_calls := (srv_calls srv)(user_id := srv_calls srv user_id @ calls)\<rparr>)"

text \<open>The zoom that image processing uses: what the acid processor holds.\<close>

definition resolved_zoom :: "('zo, 'so, 'fc, 'img) app \<Rightarrow> json" where
  "resolved_zoom a = zoom_factor (acid_processor a)"

section \<open>A concrete set of collaborators\<close>

text \<open>
  Stand-ins to run the model on: an oscillator or controller state is its
  enabled flag and a counter, an image is a number. The zoom oscillator
  answers with its counter, the controller with the number of bins.
\<close>

fun truthy :: "json \<Rightarrow> bool" where
  "truthy JNull = False"
| "truthy (JBool b) = b"
| "truthy (JNum x) = (x \<noteq> 0)"
| "truthy (JStr s) = (s \<noteq> [])"
| "truthy (JArr xs) = (xs \<noteq> [])"
| "truthy (JObj kvs) = (kvs \<noteq> [])"

fun count_bins :: "json \<Rightarrow> json" where
  "count_bins (JArr xs) = JNum (of_nat (length xs))"
| "count_bins _ = JNum 0"

definition test_env :: "(bool \<times> nat, bool \<times> nat, bool \<times> nat, json, nat) collab" where
  "test_env = \<lparr>
     zo_enabled = fst,
     zo_update = (\<lambda>(e, n). (JNum (of_nat n), (e, Suc n))),
     zo_set_enabled = (\<lambda>v (e, n). (truthy v, n)),
     so_enabled = fst,
     so_update = (\<lambda>(e, n). ((JNum (of_nat n), JNum (of_nat n)), (e, Suc n))),
     so_set_enabled = (\<lambda>v (e, n). (truthy v, n)),
     so_set_x_increment = (\<lambda>v s. s),
     so_set_y_increment = (\<lambda>v s. s),
     fc_enabled = fst,
     fc_amplify = (\<lambda>s b. b),
     fc_process_frequency_bins = (\<lambda>b (e, n). (count_bins b, (e, Suc n))),
     fc_set_sensitivity = (\<lambda>lo hi s. s),
     input_mode = ''image'',
     InputParams = Some,
     bytes_to_pil = (\<lambda>b. Some (length b)),
     ip_process = (\<lambda>ip i. (i, 0)),
     ap_process_input = (\<lambda>ap i m. i),
     remove_background = (\<lambda>i. i),
     predict = (\<lambda>ns. Some (length (ns_fields ns))),
     run_safety_checker = (\<lambda>i. (i, False)),
     pil_to_frame = (\<lambda>i. [i])
   \<rparr>"

definition test_app :: "(bool \<times> nat, bool \<times> nat, bool \<times> nat, nat) app" where
  "test_app = \<lparr>
     use_acid_processor = True,
     use_background_removal = True,
     input_processor = \<lparr>human_seg = JBool True, resizing_factor_humanseg = JNum 1, blur = JBool False,
                         brightness = JNum 1, infrared_colorize = JBool False\<rparr>,
     acid_processor = \<lparr>acid_strength = JNum 0, coef_noise = JNum 0, acid_tracers = JBool False,
                        acid_strength_foreground = JNum 0, zoom_factor = JNum 1, x_shift = JNum 0,
                        y_shift = JNum 0, do_acid_wobblers = JBool False, color_matching = JNum 0,
                        feedback = None\<rparr>,
     zoom_oscillator = (False, 7),
     shift_oscillator = (False, 0),
     frequency_zoom_controller = (False, 0)
   \<rparr>"

definition test_args :: args where
  "test_args = \<lparr>arg_timeout = 10, arg_safety_checker = False\<rparr>"

definition next_frame_in :: "real \<Rightarrow> dict option \<Rightarrow> bytes \<Rightarrow> json tick_in" where
  "next_frame_in t s b = \<lparr>
     t_now = t,
     t_fft = JArr [],
     t_data = Got (JObj [(''status'', JStr ''next_frame'')]),
     t_params = Got \<lparr>p_acid_settings = s, p_fields = [(''prompt'', JStr ''a'')]\<rparr>,
     t_image = Got b
   \<rparr>"

definition idle_in :: "real \<Rightarrow> json tick_in" where
  "idle_in t = \<lparr>t_now = t, t_fft = JArr [], t_data = Pending, t_params = Pending, t_image = Pending\<rparr>"

definition bins_settings :: dict where
  "bins_settings = [(''zoom_factor'', JNum 3), (''binned_fft'', JArr [JNum 1, JNum 2])]"

definition direct_settings :: dict where
  "direct_settings = [(''zoom_factor'', JNum 3)]"

definition tuning_settings :: dict where
  "tuning_settings =
     [(''brightness'', JNum 2), (''acid_strength'', JNum 5), (''use_test_zoom'', JBool True),
      (''low_bin_sensitivity'', JNum 4)]"

definition osc_app :: "(bool \<times> nat, bool \<times> nat, bool \<times> nat, nat) app" where
  "osc_app = test_app\<lparr>zoom_oscillator := (True, 7)\<rparr>"

definition test_server :: "(bool \<times> nat, bool \<times> nat, bool \<times> nat, nat) server" where
  "test_server = \<lparr>srv_app = test_app, srv_calls = (\<lambda>u. [])\<rparr>"

definition strict_args :: args where
  "strict_args = \<lparr>arg_timeout = 10, arg_safety_checker = True\<rparr>"

definition flagging_env :: "(bool \<times> nat, bool \<times> nat, bool \<times> nat, json, nat) collab" where
  "flagging_env = test_env\<lparr>run_safety_checker := (\<lambda>i. (i, True))\<rparr>"

definition some_params :: "nat namespace" where
  "some_params = \<lparr>ns_fields = [(''prompt'', JStr ''a'')], ns_image = Some 5\<rparr>"

section \<open>Facts about one iteration of the control loop\<close>

lemma fst_raise: "fst (raise e a) = a"
  by (simp add: raise_def)

lemma calls_raise: "fst (snd (raise e a)) = [Disconnect]"
  by (simp add: raise_def)

lemma status_raise: "snd (snd (raise e a)) = Failed e"
  by (simp add: raise_def)

lemma fst_store_params: "fst (store_params env inp v a) = a"
  by (simp add: store_params_def raise_def Let_def split: recv.splits option.splits)

lemma store_params_no_timeout:
  "SendJson timeout_msg \<notin> set (fst (snd (store_params env inp v a)))"
  by (simp add: store_params_def raise_def Let_def timeout_msg_def send_frame_msg_def wait_msg_def
        split: recv.splits option.splits)

lemma store_params_not_returned: "snd (snd (store_params env inp v a)) \<noteq> Returned"
  by (simp add: store_params_def raise_def Let_def split: recv.splits option.splits)

lemma next_frame_no_timeout:
  "SendJson timeout_msg \<notin> set (fst (snd (next_frame env inp a)))"
  by (simp add: next_frame_def raise_def Let_def store_params_no_timeout
        split: recv.splits option.splits)

lemma next_frame_not_returned: "snd (snd (next_frame env inp a)) \<noteq> Returned"
  by (simp add: next_frame_def raise_def Let_def store_params_not_returned
        split: recv.splits option.splits)

lemma tick_body_no_timeout:
  "SendJson timeout_msg \<notin> set (fst (snd (tick_body env inp a)))"
  by (simp add: tick_body_def raise_def Let_def next_frame_no_timeout
        split: recv.splits sum.splits)

lemma tick_body_not_returned: "snd (snd (tick_body env inp a)) \<noteq> Returned"
  by (simp add: tick_body_def raise_def Let_def next_frame_not_returned
        split: recv.splits sum.splits)

lemma control_loop_without_timeout:
  assumes "arg_timeout cfg \<le> 0"
  shows "SendJson timeout_msg \<notin> set (fst (snd (control_loop cfg env last_time inps a)))
         \<and> snd (snd (control_loop cfg env last_time inps a)) \<noteq> Returned"
proof (induction inps arbitrary: a)
  case Nil
  show ?case by simp
next
  case (Cons inp inps)
  have tick: "control_tick cfg env last_time inp a = tick_body env inp a"
    using assms by (simp add: control_tick_def expired_def)
  obtain a' calls st where body: "tick_body env inp a = (a', calls, st)"
    by (cases "tick_body env inp a") auto
  have calls: "SendJson timeout_msg \<notin> set calls"
    using tick_body_no_timeout [of env inp a] body by simp
  have st: "st \<noteq> Returned"
    using tick_body_not_returned [of env inp a] body by simp
  show ?case
  proof (cases "st = Continue")
    case True
    obtain a'' calls' st' where rest: "control_loop cfg env last_time inps a' = (a'', calls', st')"
      by (cases "control_loop cfg env last_time inps a'") auto
    have "SendJson timeout_msg \<notin> set calls' \<and> st' \<noteq> Returned"
      using Cons.IH [of a'] rest by simp
    then show ?thesis
      using tick body True rest calls by simp
  next
    case False
    then show ?thesis
      using tick body calls st by (cases st) simp_all
  qed
qed

section \<open>The inactivity timeout\<close>

text \<open>
  C10. When the configured timeout is zero or negative the inactivity check
  never fires: every iteration is just its body, and however long the loop
  runs and whatever the clock says, it sends no \<open>{status: "timeout"}\<close>
  message and never returns through the timeout branch.
\<close>

theorem nonpositive_timeout_never_fires:
  assumes "arg_timeout cfg \<le> 0"
  shows "control_tick cfg env last_time inp a = tick_body env inp a
         \<and> SendJson timeout_msg \<notin> set (fst (snd (handle_websocket_data cfg env True last_time inps a)))
         \<and> snd (snd (handle_websocket_data cfg env True last_time inps a)) \<noteq> Returned"
  using assms control_loop_without_timeout [OF assms, of env last_time inps a]
  by (simp add: control_tick_def expired_def handle_websocket_data_def)

theorem nonpositive_timeout_never_fires_witness:
  "arg_timeout (test_args\<lparr>arg_timeout := 0\<rparr>) \<le> 0
   \<and> handle_websocket_data (test_args\<lparr>arg_timeout := 0\<rparr>) test_env True 0
        [next_frame_in 1000000 None [], idle_in 2000000] test_app
      = (test_app, [SendJson send_frame_msg], Blocked)"
proof -
  have h: "arg_timeout (test_args\<lparr>arg_timeout := 0\<rparr>) \<le> 0"
    by (simp add: test_args_def)
  have run: "handle_websocket_data (test_args\<lparr>arg_timeout := 0\<rparr>) test_env True 0
        [next_frame_in 1000000 None [], idle_in 2000000] test_app
      = (test_app, [SendJson send_frame_msg], Blocked)"
    using nonpositive_timeout_never_fires [OF h, of test_env 0 "next_frame_in 1000000 None []" test_app]
          nonpositive_timeout_never_fires [OF h, of test_env 0 "idle_in 2000000" test_app]
    by (simp add: handle_websocket_data_def tick_body_def next_frame_def store_params_def fuse_def
          pipeline_params_def apply_oscillators_def next_frame_in_def idle_in_def test_env_def test_app_def)
  show ?thesis using h run by simp
qed

section \<open>What each run of setters leaves alone\<close>

lemmas setter_defs = set_zoom_factor_def set_x_shift_def set_y_shift_def set_acid_strength_def
  set_coef_noise_def set_acid_tracers_def set_acid_strength_foreground_def set_do_acid_wobblers_def
  set_color_matching_def set_human_seg_def set_resizing_factor_humanseg_def set_blur_def
  set_brightness_def set_infrared_colorize_def

lemma on_key_frame: "(\<And>v b. g (f v b) = g b) \<Longrightarrow> g (on_key k s f a) = g a"
  by (simp add: on_key_def split: option.splits)

lemmas use_acid_on_key = on_key_frame [where g = use_acid_processor]
lemmas input_on_key = on_key_frame [where g = input_processor]
lemmas acid_on_key = on_key_frame [where g = acid_processor]
lemmas zo_on_key = on_key_frame [where g = zoom_oscillator]
lemmas fc_on_key = on_key_frame [where g = frequency_zoom_controller]
lemmas zoom_on_key = on_key_frame [where g = "\<lambda>a. zoom_factor (acid_processor a)"]
lemmas strength_on_key = on_key_frame [where g = "\<lambda>a. acid_strength (acid_processor a)"]
lemmas brightness_on_key = on_key_frame [where g = "\<lambda>a. brightness (input_processor a)"]

lemma update_input_settings_frame:
  "use_acid_processor (update_input_settings s a) = use_acid_processor a"
  "acid_processor (update_input_settings s a) = acid_processor a"
  "zoom_oscillator (update_input_settings s a) = zoom_oscillator a"
  "frequency_zoom_controller (update_input_settings s a) = frequency_zoom_controller a"
  by (simp_all add: update_input_settings_def Let_def use_acid_on_key acid_on_key zo_on_key fc_on_key
        setter_defs)

lemma update_acid_fields_frame:
  "use_acid_processor (update_acid_fields s a) = use_acid_processor a"
  "input_processor (update_acid_fields s a) = input_processor a"
  "zoom_oscillator (update_acid_fields s a) = zoom_oscillator a"
  "frequency_zoom_controller (update_acid_fields s a) = frequency_zoom_controller a"
  by (simp_all add: update_acid_fields_def Let_def use_acid_on_key input_on_key zo_on_key fc_on_key
        setter_defs)

lemma update_sensitivity_frame:
  "use_acid_processor (update_sensitivity env s a) = use_acid_processor a"
  "input_processor (update_sensitivity env s a) = input_processor a"
  "acid_processor (update_sensitivity env s a) = acid_processor a"
  "zoom_oscillator (update_sensitivity env s a) = zoom_oscillator a"
  by (simp_all add: update_sensitivity_def)

lemma update_test_oscillators_frame:
  "use_acid_processor (update_test_oscillators env s a) = use_acid_processor a"
  "input_processor (update_test_oscillators env s a) = input_processor a"
  "acid_processor (update_test_oscillators env s a) = acid_processor a"
  "frequency_zoom_controller (update_test_oscillators env s a) = frequency_zoom_controller a"
  by (simp_all add: update_test_oscillators_def Let_def use_acid_on_key input_on_key acid_on_key fc_on_key)

lemma zoom_oscillator_update_test_oscillators:
  "zoom_oscillator (update_test_oscillators env s a) =
     (case map_of s ''use_test_zoom'' of
        None \<Rightarrow> zoom_oscillator a
      | Some v \<Rightarrow> zo_set_enabled env v (zoom_oscillator a))"
  by (simp add: update_test_oscillators_def Let_def zo_on_key)
     (simp add: on_key_def split: option.splits)

lemma brightness_update_input_settings:
  "brightness (input_processor (update_input_settings s a)) =
     (case map_of s ''brightness'' of None \<Rightarrow> brightness (input_processor a) | Some v \<Rightarrow> v)"
  by (simp add: update_input_settings_def Let_def brightness_on_key setter_defs)
     (simp add: on_key_def setter_defs split: option.splits)

lemma acid_strength_update_acid_fields:
  "acid_strength (acid_processor (update_acid_fields s a)) =
     (case map_of s ''acid_strength'' of None \<Rightarrow> acid_strength (acid_processor a) | Some v \<Rightarrow> v)"
  by (simp add: update_acid_fields_def Let_def strength_on_key setter_defs)
     (simp add: on_key_def setter_defs split: option.splits)

lemma zoom_update_acid_fields:
  "zoom_factor (acid_processor (update_acid_fields s a)) =
    (if has_key ''zoom_factor'' s \<and> \<not> has_key ''binned_fft'' s then get s ''zoom_factor''
     else zoom_factor (acid_processor a))"
  by (simp add: update_acid_fields_def Let_def zoom_on_key setter_defs)

lemma apply_oscillators_use_acid:
  "use_acid_processor (apply_oscillators env fft a) = use_acid_processor a"
  by (simp add: apply_oscillators_def Let_def setter_defs split: prod.splits)

lemma update_acid_settings_use_acid:
  "use_acid_processor (update_acid_settings env s a) = use_acid_processor a"
  by (simp add: update_acid_settings_def update_test_oscillators_frame update_sensitivity_frame
        update_acid_fields_frame update_input_settings_frame)

lemma update_acid_settings_zoom:
  "use_acid_processor a \<Longrightarrow>
   resolved_zoom (update_acid_settings env s a) =
     (if has_key ''zoom_factor'' s \<and> \<not> has_key ''binned_fft'' s then get s ''zoom_factor''
      else resolved_zoom a)"
  by (simp add: resolved_zoom_def update_acid_settings_def update_test_oscillators_frame
        update_sensitivity_frame zoom_update_acid_fields update_input_settings_frame)

lemma update_acid_settings_zoom_oscillator:
  "use_acid_processor a \<Longrightarrow>
   zoom_oscillator (update_acid_settings env s a) =
     (case map_of s ''use_test_zoom'' of
        None \<Rightarrow> zoom_oscillator a
      | Some v \<Rightarrow> zo_set_enabled env v (zoom_oscillator a))"
  by (simp add: update_acid_settings_def zoom_oscillator_update_test_oscillators
        update_sensitivity_frame update_acid_fields_frame update_input_settings_frame
        split: option.splits)

lemma update_acid_settings_brightness:
  "use_acid_processor a \<Longrightarrow>
   brightness (input_processor (update_acid_settings env s a)) =
     (case map_of s ''brightness'' of None \<Rightarrow> brightness (input_processor a) | Some v \<Rightarrow> v)"
  by (simp add: update_acid_settings_def update_test_oscillators_frame
        update_sensitivity_frame update_acid_fields_frame brightness_update_input_settings
        split: option.splits)

lemma update_acid_settings_acid_strength:
  "use_acid_processor a \<Longrightarrow>
   acid_strength (acid_processor (update_acid_settings env s a)) =
     (case map_of s ''acid_strength'' of None \<Rightarrow> acid_strength (acid_processor a) | Some v \<Rightarrow> v)"
  by (simp add: update_acid_settings_def update_test_oscillators_frame
        update_sensitivity_frame acid_strength_update_acid_fields update_input_settings_frame
        split: option.splits)

lemma update_acid_settings_controller:
  "use_acid_processor a \<Longrightarrow>
   frequency_zoom_controller (update_acid_settings env s a) =
     (if has_key ''low_bin_sensitivity'' s \<or> has_key ''high_bin_sensitivity'' s
      then fc_set_sensitivity env (get s ''low_bin_sensitivity'') (get s ''high_bin_sensitivity'')
             (frequency_zoom_controller a)
      else frequency_zoom_controller a)"
  by (simp add: update_acid_settings_def update_test_oscillators_frame update_sensitivity_def
        update_acid_fields_frame update_input_settings_frame)

text \<open>The step after the settings: it touches the zoom factor and the controller only.\<close>

lemma apply_acid_settings_frame:
  "input_processor (apply_acid_settings env s a) = input_processor (update_acid_settings env s a)"
  "zoom_oscillator (apply_acid_settings env s a) = zoom_oscillator (update_acid_settings env s a)"
  "acid_strength (acid_processor (apply_acid_settings env s a)) =
     acid_strength (acid_processor (update_acid_settings env s a))"
  by (simp_all add: apply_acid_settings_def Let_def setter_defs split: prod.splits)

lemma apply_acid_settings_bins:
  assumes "use_acid_processor a" and "map_of s ''binned_fft'' = Some b" and "b \<noteq> JNull"
      and "\<not> zo_enabled env (zoom_oscillator (update_acid_settings env s a))"
  shows "resolved_zoom (apply_acid_settings env s a) =
           fst (fc_process_frequency_bins env b (frequency_zoom_controller (update_acid_settings env s a)))"
  using assms
  by (simp add: apply_acid_settings_def Let_def has_key_def get_def update_acid_settings_use_acid
        resolved_zoom_def setter_defs split: prod.splits)

lemma pipeline_params_apply_oscillators:
  "pipeline_params (apply_oscillators env fft a) m = pipeline_params a m"
  by (simp add: pipeline_params_def apply_oscillators_use_acid split: option.splits)

lemma control_tick_next_frame:
  assumes "\<not> expired cfg last_time (t_now inp)"
      and "t_data inp = Got d" and "subscript d ''status'' = Inr (JStr ''next_frame'')"
      and "t_params inp = Got m"
  shows "control_tick cfg env last_time inp a =
           (case InputParams env (pipeline_params a m) of
              None \<Rightarrow> raise ValidationError (fuse env m (apply_oscillators env (t_fft inp) a))
            | Some v \<Rightarrow> store_params env inp v (fuse env m (apply_oscillators env (t_fft inp) a)))"
  using assms
  by (simp add: control_tick_def tick_body_def next_frame_def Let_def pipeline_params_apply_oscillators)

lemma fst_control_tick_next_frame:
  assumes "\<not> expired cfg last_time (t_now inp)"
      and "t_data inp = Got d" and "subscript d ''status'' = Inr (JStr ''next_frame'')"
      and "t_params inp = Got m"
  shows "fst (control_tick cfg env last_time inp a) = fuse env m (apply_oscillators env (t_fft inp) a)"
  by (simp add: control_tick_next_frame [OF assms] fst_raise fst_store_params split: option.splits)

lemma store_params_empty_image:
  assumes "input_mode env = ''image''" and "t_image inp = Got image_data" and "length image_data = 0"
  shows "store_params env inp v a = (a, [SendJson send_frame_msg], Continue)"
  using assms by (simp add: store_params_def)

section \<open>Zoom precedence\<close>

text \<open>
  C2. In an iteration that receives a parameter message whose \<open>acid_settings\<close>
  carry frequency bins (\<open>binned_fft\<close> present and not null), with the acid
  processor in use and the zoom oscillator not enabled at the moment the bins
  are looked at, the zoom that the acid processor holds afterwards is what the
  frequency zoom controller computed from those bins. A \<open>zoom_factor\<close> entry
  of the same settings is not applied: applying the settings leaves the zoom
  as it was.
\<close>

theorem client_bins_decide_zoom:
  assumes "\<not> expired cfg last_time (t_now inp)"
      and "use_acid_processor a"
      and "t_data inp = Got d" and "subscript d ''status'' = Inr (JStr ''next_frame'')"
      and "t_params inp = Got m" and "p_acid_settings m = Some s"
      and "map_of s ''binned_fft'' = Some b" and "b \<noteq> JNull"
      and "\<not> zo_enabled env (zoom_oscillator (update_acid_settings env s (apply_oscillators env (t_fft inp) a)))"
  shows "resolved_zoom (fst (control_tick cfg env last_time inp a)) =
           fst (fc_process_frequency_bins env b
                  (frequency_zoom_controller (update_acid_settings env s (apply_oscillators env (t_fft inp) a))))
         \<and> resolved_zoom (update_acid_settings env s (apply_oscillators env (t_fft inp) a)) =
             resolved_zoom (apply_oscillators env (t_fft inp) a)"
proof -
  let ?a1 = "apply_oscillators env (t_fft inp) a"
  have acid: "use_acid_processor ?a1"
    using assms(2) by (simp add: apply_oscillators_use_acid)
  have "fst (control_tick cfg env last_time inp a) = fuse env m ?a1"
    using assms(1,3,4,5) by (rule fst_control_tick_next_frame)
  also have "\<dots> = apply_acid_settings env s ?a1"
    using assms(6) acid by (simp add: fuse_def)
  finally have app: "fst (control_tick cfg env last_time inp a) = apply_acid_settings env s ?a1" .
  have bins: "resolved_zoom (apply_acid_settings env s ?a1) =
      fst (fc_process_frequency_bins env b (frequency_zoom_controller (update_acid_settings env s ?a1)))"
    using acid assms(7,8,9) by (rule apply_acid_settings_bins)
  have direct: "resolved_zoom (update_acid_settings env s ?a1) = resolved_zoom ?a1"
    using assms(7) by (simp add: update_acid_settings_zoom [OF acid] has_key_def)
  show ?thesis using app bins direct by simp
qed

theorem client_bins_decide_zoom_witness:
  "resolved_zoom (fst (control_tick test_args test_env 0 (next_frame_in 1 (Some bins_settings) [5]) test_app))
     = JNum 2
   \<and> get bins_settings ''zoom_factor'' = JNum 3"
proof -
  let ?inp = "next_frame_in 1 (Some bins_settings) [5]"
  have h1: "\<not> expired test_args 0 (t_now ?inp)"
    by (simp add: expired_def test_args_def next_frame_in_def)
  have h2: "use_acid_processor test_app"
    by (simp add: test_app_def)
  have h3: "t_data ?inp = Got (JObj [(''status'', JStr ''next_frame'')])"
    by (simp add: next_frame_in_def)
  have h4: "subscript (JObj [(''status'', JStr ''next_frame'')]) ''status'' = Inr (JStr ''next_frame'')"
    by simp
  have h5: "t_params ?inp = Got \<lparr>p_acid_settings = Some bins_settings, p_fields = [(''prompt'', JStr ''a'')]\<rparr>"
    by (simp add: next_frame_in_def)
  have h6: "p_acid_settings \<lparr>p_acid_settings = Some bins_settings, p_fields = [(''prompt'', JStr ''a'')]\<rparr>
              = Some bins_settings"
    by simp
  have h7: "map_of bins_settings ''binned_fft'' = Some (JArr [JNum 1, JNum 2])"
    by (simp add: bins_settings_def)
  have h8: "JArr [JNum 1, JNum 2] \<noteq> JNull"
    by simp
  have a1: "apply_oscillators test_env (t_fft ?inp) test_app = test_app"
    by (simp add: apply_oscillators_def test_env_def test_app_def)
  have zo: "zoom_oscillator (update_acid_settings test_env bins_settings test_app) = (False, 7)"
    using update_acid_settings_zoom_oscillator [OF h2, of test_env bins_settings]
    by (simp add: bins_settings_def) (simp add: test_app_def)
  have fc: "frequency_zoom_controller (update_acid_settings test_env bins_settings test_app) = (False, 0)"
    using update_acid_settings_controller [OF h2, of test_env bins_settings]
    by (simp add: bins_settings_def has_key_def) (simp add: test_app_def)
  have h9: "\<not> zo_enabled test_env (zoom_oscillator (update_acid_settings test_env bins_settings
              (apply_oscillators test_env (t_fft ?inp) test_app)))"
    by (simp add: a1 zo) (simp add: test_env_def)
  have "resolved_zoom (fst (control_tick test_args test_env 0 ?inp test_app)) = JNum 2"
    using client_bins_decide_zoom [OF h1 h2 h3 h4 h5 h6 h7 h8 h9]
    by (simp add: a1 fc) (simp add: test_env_def)
  then show ?thesis
    by (simp add: bins_settings_def get_def)
qed

section \<open>The empty image payload\<close>

text \<open>
  C7. In image mode, an iteration that receives \<open>next_frame\<close>, a parameter
  message that validates and a binary payload of length zero answers with
  \<open>{status: "send_frame"}\<close> and nothing else: no call writes the
  latest-parameters slot, and the loop goes on to its next iteration instead
  of taking the error path.
\<close>

theorem empty_image_requests_resend:
  assumes "\<not> expired cfg last_time (t_now inp)"
      and "t_data inp = Got d" and "subscript d ''status'' = Inr (JStr ''next_frame'')"
      and "t_params inp = Got m" and "InputParams env (pipeline_params a m) = Some v"
      and "input_mode env = ''image''" and "t_image inp = Got image_data" and "length image_data = 0"
  shows "control_tick cfg env last_time inp a =
           (fuse env m (apply_oscillators env (t_fft inp) a), [SendJson send_frame_msg], Continue)
         \<and> (\<forall>ns. UpdateData ns \<notin> set (fst (snd (control_tick cfg env last_time inp a))))"
proof -
  have "control_tick cfg env last_time inp a =
          store_params env inp v (fuse env m (apply_oscillators env (t_fft inp) a))"
    using control_tick_next_frame [OF assms(1,2,3,4), of env a] assms(5) by simp
  also have "\<dots> = (fuse env m (apply_oscillators env (t_fft inp) a), [SendJson send_frame_msg], Continue)"
    using assms(6,7,8) by (rule store_params_empty_image)
  finally show ?thesis by simp
qed

theorem empty_image_requests_resend_witness:
  "control_tick test_args test_env 0 (next_frame_in 1 None []) test_app
     = (test_app, [SendJson send_frame_msg], Continue)"
proof -
  let ?inp = "next_frame_in 1 None []"
  let ?m = "\<lparr>p_acid_settings = None, p_fields = [(''prompt'', JStr ''a'')]\<rparr>"
  have h1: "\<not> expired test_args 0 (t_now ?inp)"
    by (simp add: expired_def test_args_def next_frame_in_def)
  have h2: "t_data ?inp = Got (JObj [(''status'', JStr ''next_frame'')])"
    by (simp add: next_frame_in_def)
  have h3: "subscript (JObj [(''status'', JStr ''next_frame'')]) ''status'' = Inr (JStr ''next_frame'')"
    by simp
  have h4: "t_params ?inp = Got ?m"
    by (simp add: next_frame_in_def)
  have h5: "InputParams test_env (pipeline_params test_app ?m) = Some [(''prompt'', JStr ''a'')]"
    by (simp add: test_env_def pipeline_params_def)
  have h6: "input_mode test_env = ''image''"
    by (simp add: test_env_def)
  have h7: "t_image ?inp = Got []"
    by (simp add: next_frame_in_def)
  have h8: "length ([] :: bytes) = 0"
    by simp
  have a1: "apply_oscillators test_env (t_fft ?inp) test_app = test_app"
    by (simp add: apply_oscillators_def test_env_def test_app_def)
  show ?thesis
    using empty_image_requests_resend [OF h1 h2 h3 h4 h5 h6 h7 h8]
    by (simp add: a1 fuse_def)
qed

section \<open>Settings that arrive with an empty image\<close>

text \<open>
  C9. In image mode, with the acid processor in use, an iteration whose
  parameter message carries \<open>acid_settings\<close> and whose binary payload is
  empty still applies those settings before it asks for a resend: the state
  left behind is the state after \<open>apply_acid_settings\<close>, so the input
  processor (brightness), the acid processor (acid strength), the oscillator
  toggle and the controller sensitivity have the values the settings give,
  while the only call made is the \<open>send_frame\<close> reply and the slot is not
  written.
\<close>

theorem acid_settings_applied_before_resend:
  assumes "\<not> expired cfg last_time (t_now inp)"
      and "use_acid_processor a"
      and "t_data inp = Got d" and "subscript d ''status'' = Inr (JStr ''next_frame'')"
      and "t_params inp = Got m" and "p_acid_settings m = Some s"
      and "InputParams env (p_fields m) = Some v"
      and "input_mode env = ''image''" and "t_image inp = Got image_data" and "length image_data = 0"
  shows "control_tick cfg env last_time inp a =
           (apply_acid_settings env s (apply_oscillators env (t_fft inp) a), [SendJson send_frame_msg], Continue)
         \<and> brightness (input_processor (fst (control_tick cfg env last_time inp a))) =
             (case map_of s ''brightness'' of
                None \<Rightarrow> brightness (input_processor (apply_oscillators env (t_fft inp) a))
              | Some x \<Rightarrow> x)
         \<and> acid_strength (acid_processor (fst (control_tick cfg env last_time inp a))) =
             (case map_of s ''acid_strength'' of
                None \<Rightarrow> acid_strength (acid_processor (apply_oscillators env (t_fft inp) a))
              | Some x \<Rightarrow> x)
         \<and> zoom_oscillator (fst (control_tick cfg env last_time inp a)) =
             (case map_of s ''use_test_zoom'' of
                None \<Rightarrow> zoom_oscillator (apply_oscillators env (t_fft inp) a)
              | Some x \<Rightarrow> zo_set_enabled env x (zoom_oscillator (apply_oscillators env (t_fft inp) a)))
         \<and> frequency_zoom_controller (update_acid_settings env s (apply_oscillators env (t_fft inp) a)) =
             (if has_key ''low_bin_sensitivity'' s \<or> has_key ''high_bin_sensitivity'' s
              then fc_set_sensitivity env (get s ''low_bin_sensitivity'') (get s ''high_bin_sensitivity'')
                     (frequency_zoom_controller (apply_oscillators env (t_fft inp) a))
              else frequency_zoom_controller (apply_oscillators env (t_fft inp) a))"
proof -
  let ?a1 = "apply_oscillators env (t_fft inp) a"
  have acid: "use_acid_processor ?a1"
    using assms(2) by (simp add: apply_oscillators_use_acid)
  have params: "InputParams env (pipeline_params a m) = Some v"
    using assms(2,6,7) by (simp add: pipeline_params_def)
  have fused: "fuse env m ?a1 = apply_acid_settings env s ?a1"
    using assms(6) acid by (simp add: fuse_def)
  have "control_tick cfg env last_time inp a = store_params env inp v (fuse env m ?a1)"
    using control_tick_next_frame [OF assms(1,3,4,5), of env a] params by simp
  also have "\<dots> = (fuse env m ?a1, [SendJson send_frame_msg], Continue)"
    using assms(8,9,10) by (rule store_params_empty_image)
  finally have tick: "control_tick cfg env last_time inp a =
      (apply_acid_settings env s ?a1, [SendJson send_frame_msg], Continue)"
    using fused by simp
  show ?thesis
    by (simp add: tick apply_acid_settings_frame update_acid_settings_brightness [OF acid]
          update_acid_settings_acid_strength [OF acid] update_acid_settings_zoom_oscillator [OF acid]
          update_acid_settings_controller [OF acid])
qed

theorem acid_settings_applied_before_resend_witness:
  "fst (snd (control_tick test_args test_env 0 (next_frame_in 1 (Some tuning_settings) []) test_app))
     = [SendJson send_frame_msg]
   \<and> brightness (input_processor
        (fst (control_tick test_args test_env 0 (next_frame_in 1 (Some tuning_settings) []) test_app))) = JNum 2
   \<and> acid_strength (acid_processor
        (fst (control_tick test_args test_env 0 (next_frame_in 1 (Some tuning_settings) []) test_app))) = JNum 5
   \<and> zoom_oscillator
        (fst (control_tick test_args test_env 0 (next_frame_in 1 (Some tuning_settings) []) test_app)) = (True, 7)"
proof -
  let ?inp = "next_frame_in 1 (Some tuning_settings) []"
  let ?m = "\<lparr>p_acid_settings = Some tuning_settings, p_fields = [(''prompt'', JStr ''a'')]\<rparr>"
  have h1: "\<not> expired test_args 0 (t_now ?inp)"
    by (simp add: expired_def test_args_def next_frame_in_def)
  have h2: "use_acid_processor test_app"
    by (simp add: test_app_def)
  have h3: "t_data ?inp = Got (JObj [(''status'', JStr ''next_frame'')])"
    by (simp add: next_frame_in_def)
  have h4: "subscript (JObj [(''status'', JStr ''next_frame'')]) ''status'' = Inr (JStr ''next_frame'')"
    by simp
  have h5: "t_params ?inp = Got ?m"
    by (simp add: next_frame_in_def)
  have h6: "p_acid_settings ?m = Some tuning_settings"
    by simp
  have h7: "InputParams test_env (p_fields ?m) = Some [(''prompt'', JStr ''a'')]"
    by (simp add: test_env_def)
  have h8: "input_mode test_env = ''image''"
    by (simp add: test_env_def)
  have h9: "t_image ?inp = Got []"
    by (simp add: next_frame_in_def)
  have h10: "length ([] :: bytes) = 0"
    by simp
  have a1: "apply_oscillators test_env (t_fft ?inp) test_app = test_app"
    by (simp add: apply_oscillators_def test_env_def test_app_def)
  have k1: "map_of tuning_settings ''brightness'' = Some (JNum 2)"
    by (simp add: tuning_settings_def)
  have k2: "map_of tuning_settings ''acid_strength'' = Some (JNum 5)"
    by (simp add: tuning_settings_def)
  have k3: "map_of tuning_settings ''use_test_zoom'' = Some (JBool True)"
    by (simp add: tuning_settings_def)
  have toggle: "zo_set_enabled test_env (JBool True) (zoom_oscillator test_app) = (True, 7)"
    by (simp add: test_env_def test_app_def)
  note t = acid_settings_applied_before_resend [OF h1 h2 h3 h4 h5 h6 h7 h8 h9 h10]
  have c1: "fst (snd (control_tick test_args test_env 0 ?inp test_app)) = [SendJson send_frame_msg]"
    using t [THEN conjunct1] by simp
  have c2: "brightness (input_processor (fst (control_tick test_args test_env 0 ?inp test_app))) = JNum 2"
    using t [THEN conjunct2, THEN conjunct1] by (simp add: k1)
  have c3: "acid_strength (acid_processor (fst (control_tick test_args test_env 0 ?inp test_app))) = JNum 5"
    using t [THEN conjunct2, THEN conjunct2, THEN conjunct1] by (simp add: k2)
  have c4: "zoom_oscillator (fst (control_tick test_args test_env 0 ?inp test_app)) = (True, 7)"
    using t [THEN conjunct2, THEN conjunct2, THEN conjunct2, THEN conjunct1]
    by (simp add: k3 a1 toggle)
  show ?thesis
    using c1 c2 c3 c4 by simp
qed

lemma apply_acid_settings_direct:
  assumes "use_acid_processor a" and "has_key ''zoom_factor'' s" and "\<not> has_key ''binned_fft'' s"
  shows "resolved_zoom (apply_acid_settings env s a) = get s ''zoom_factor''"
  using assms by (simp add: apply_acid_settings_def update_acid_settings_zoom)

lemma apply_oscillators_zoom_idle:
  assumes "\<not> zo_enabled env (zoom_oscillator a)" and "\<not> fc_enabled env (frequency_zoom_controller a)"
  shows "resolved_zoom (apply_oscillators env fft a) = resolved_zoom a"
  using assms
  by (simp add: apply_oscillators_def Let_def resolved_zoom_def setter_defs split: prod.splits)

lemma apply_oscillators_zoom_running:
  assumes "use_acid_processor a" and "zo_enabled env (zoom_oscillator a)"
      and "\<not> fc_enabled env (frequency_zoom_controller a)"
  shows "resolved_zoom (apply_oscillators env fft a) = fst (zo_update env (zoom_oscillator a))"
  using assms
  by (simp add: apply_oscillators_def Let_def resolved_zoom_def setter_defs split: prod.splits)

section \<open>The oscillator against a direct zoom\<close>

text \<open>
  C1. The zoom oscillator is enabled and answers 7; the same iteration
  receives \<open>acid_settings\<close> with a direct \<open>zoom_factor\<close> of 3 and no bins.
  The oscillator's value is stored at the top of the iteration, and
  \<open>_update_acid_settings\<close> then stores the direct value over it: the zoom in
  force when the image is processed is 3.
\<close>

theorem direct_zoom_overrides_oscillator:
  "zo_enabled test_env (zoom_oscillator osc_app)
   \<and> fst (zo_update test_env (zoom_oscillator osc_app)) = JNum 7
   \<and> resolved_zoom (apply_oscillators test_env (JArr []) osc_app) = JNum 7
   \<and> resolved_zoom (fst (control_tick test_args test_env 0 (next_frame_in 1 (Some direct_settings) [5]) osc_app))
       = JNum 3"
proof -
  let ?inp = "next_frame_in 1 (Some direct_settings) [5]"
  let ?m = "\<lparr>p_acid_settings = Some direct_settings, p_fields = [(''prompt'', JStr ''a'')]\<rparr>"
  have on: "zo_enabled test_env (zoom_oscillator osc_app)"
    by (simp add: osc_app_def test_env_def)
  have off: "\<not> fc_enabled test_env (frequency_zoom_controller osc_app)"
    by (simp add: osc_app_def test_env_def test_app_def)
  have acid: "use_acid_processor osc_app"
    by (simp add: osc_app_def test_app_def)
  have wave: "fst (zo_update test_env (zoom_oscillator osc_app)) = JNum 7"
    by (simp add: osc_app_def test_env_def)
  have top: "resolved_zoom (apply_oscillators test_env (JArr []) osc_app) = JNum 7"
    using apply_oscillators_zoom_running [OF acid on off] wave by simp
  have h1: "\<not> expired test_args 0 (t_now ?inp)"
    by (simp add: expired_def test_args_def next_frame_in_def)
  have h2: "t_data ?inp = Got (JObj [(''status'', JStr ''next_frame'')])"
    by (simp add: next_frame_in_def)
  have h3: "subscript (JObj [(''status'', JStr ''next_frame'')]) ''status'' = Inr (JStr ''next_frame'')"
    by simp
  have h4: "t_params ?inp = Got ?m"
    by (simp add: next_frame_in_def)
  have acid1: "use_acid_processor (apply_oscillators test_env (t_fft ?inp) osc_app)"
    using acid by (simp add: apply_oscillators_use_acid)
  have "fst (control_tick test_args test_env 0 ?inp osc_app)
          = fuse test_env ?m (apply_oscillators test_env (t_fft ?inp) osc_app)"
    using h1 h2 h3 h4 by (rule fst_control_tick_next_frame)
  also have "\<dots> = apply_acid_settings test_env direct_settings (apply_oscillators test_env (t_fft ?inp) osc_app)"
    using acid1 by (simp add: fuse_def)
  finally have "resolved_zoom (fst (control_tick test_args test_env 0 ?inp osc_app)) =
      resolved_zoom (apply_acid_settings test_env direct_settings (apply_oscillators test_env (t_fft ?inp) osc_app))"
    by simp
  also have "\<dots> = get direct_settings ''zoom_factor''"
    using acid1 by (rule apply_acid_settings_direct) (simp_all add: has_key_def direct_settings_def)
  also have "\<dots> = JNum 3"
    by (simp add: get_def direct_settings_def)
  finally show ?thesis
    using on wave top by simp
qed

section \<open>When the timeout is looked at\<close>

text \<open>
  C5, as stated, fails: with a timeout of 10 seconds, a client that connects
  and then sends nothing leaves the loop waiting in \<open>receive_json\<close>. The
  check was made once, at the start of the iteration, when nothing had
  expired; no later reading of the clock happens, no \<open>timeout\<close> message is
  sent and the session is not disconnected.
\<close>

theorem idle_session_is_not_evicted:
  "0 < arg_timeout test_args
   \<and> handle_websocket_data test_args test_env True 0 [idle_in 0] test_app = (test_app, [], Blocked)
   \<and> handle_websocket_data test_args test_env True 0 [idle_in 0, idle_in 1000] test_app
       = (test_app, [], Blocked)"
  by (simp add: handle_websocket_data_def control_tick_def expired_def tick_body_def idle_in_def
        test_args_def apply_oscillators_def test_env_def test_app_def)

lemma control_loop_append:
  assumes "control_loop cfg env start pre a = (a', calls, Continue)"
  shows "control_loop cfg env start (pre @ rest) a =
           (case control_loop cfg env start rest a' of (a'', calls', st) \<Rightarrow> (a'', calls @ calls', st))"
  using assms
proof (induction pre arbitrary: a calls)
  case Nil
  then show ?case by (simp split: prod.splits)
next
  case (Cons inp pre)
  obtain a1 c1 st1 where tick: "control_tick cfg env start inp a = (a1, c1, st1)"
    by (cases "control_tick cfg env start inp a") auto
  have st1: "st1 = Continue"
    using Cons.prems tick by (cases st1) simp_all
  obtain a2 c2 st2 where tl: "control_loop cfg env start pre a1 = (a2, c2, st2)"
    by (cases "control_loop cfg env start pre a1") auto
  have res: "a2 = a'" "calls = c1 @ c2" "st2 = Continue"
    using Cons.prems tick st1 tl by simp_all
  have "control_loop cfg env start (pre @ rest) a1 =
          (case control_loop cfg env start rest a' of (a'', calls', st) \<Rightarrow> (a'', c2 @ calls', st))"
    using Cons.IH [of a1 c2] tl res by simp
  then show ?case
    using tick st1 res by (simp split: prod.splits)
qed

text \<open>
  C5, amended. The timeout is tested once per iteration of the loop, at its
  start, and the iteration then waits in \<open>receive_json\<close> with no
  deadline. Take any iteration of the loop, reached after any run of
  iterations that all went round again. If the timeout is positive and, at
  the start of that iteration, there has been no activity for longer than the
  timeout (since some time \<open>idle_since\<close> not before the loop was entered),
  the iteration sends \<open>{status: "timeout"}\<close>, then disconnects the user,
  and the handler returns. If instead nothing has expired when the iteration
  starts and the client then sends nothing, the loop stays in
  \<open>receive_json\<close> whatever the clock does afterwards: it sends nothing more
  and the session stays connected until a message lets the next iteration
  start.
\<close>

theorem timeout_checked_at_iteration_start:
  assumes "control_loop cfg env start pre a = (a', calls, Continue)"
  shows "(0 < arg_timeout cfg \<and> start \<le> idle_since \<and> arg_timeout cfg < t_now inp - idle_since \<longrightarrow>
            handle_websocket_data cfg env True start (pre @ inp # inps) a
              = (a', calls @ [SendJson timeout_msg, Disconnect], Returned))
         \<and> (\<not> expired cfg start (t_now inp) \<and> t_data inp = Pending \<longrightarrow>
            handle_websocket_data cfg env True start (pre @ inp # inps) a
              = (apply_oscillators env (t_fft inp) a', calls, Blocked))"
proof -
  have run: "handle_websocket_data cfg env True start (pre @ inp # inps) a =
      (case control_loop cfg env start (inp # inps) a' of (a'', calls', st) \<Rightarrow> (a'', calls @ calls', st))"
    using control_loop_append [OF assms] by (simp add: handle_websocket_data_def)
  have late: "control_loop cfg env start (inp # inps) a' = (a', [SendJson timeout_msg, Disconnect], Returned)"
    if "0 < arg_timeout cfg" and "start \<le> idle_since" and "arg_timeout cfg < t_now inp - idle_since"
  proof -
    have "expired cfg start (t_now inp)"
      using that by (simp add: expired_def)
    then show ?thesis by (simp add: control_tick_def)
  qed
  have waiting: "control_loop cfg env start (inp # inps) a' = (apply_oscillators env (t_fft inp) a', [], Blocked)"
    if "\<not> expired cfg start (t_now inp)" and "t_data inp = Pending"
    using that by (simp add: control_tick_def tick_body_def)
  show ?thesis
    using run late waiting by simp
qed

theorem timeout_checked_at_iteration_start_witness:
  "handle_websocket_data test_args test_env True 0
       [next_frame_in 0 None [], next_frame_in 1 None [], idle_in 12, idle_in 13] test_app
     = (test_app, [SendJson send_frame_msg, SendJson send_frame_msg, SendJson timeout_msg, Disconnect], Returned)
   \<and> handle_websocket_data test_args test_env True 0
       [next_frame_in 0 None [], next_frame_in 1 None [], idle_in 2, idle_in 13] test_app
     = (test_app, [SendJson send_frame_msg, SendJson send_frame_msg], Blocked)"
proof -
  let ?pre = "[next_frame_in 0 None [], next_frame_in 1 None []]"
  have pre: "control_loop test_args test_env 0 ?pre test_app
      = (test_app, [SendJson send_frame_msg, SendJson send_frame_msg], Continue)"
    by (simp add: control_tick_def expired_def test_args_def tick_body_def next_frame_def store_params_def
          fuse_def pipeline_params_def apply_oscillators_def next_frame_in_def test_env_def test_app_def)
  have pos: "0 < arg_timeout test_args"
    by (simp add: test_args_def)
  have since: "(0::real) \<le> 1"
    by simp
  have gap: "arg_timeout test_args < t_now (idle_in 12) - 1"
    by (simp add: test_args_def idle_in_def)
  have early: "\<not> expired test_args 0 (t_now (idle_in 2))"
    by (simp add: expired_def test_args_def idle_in_def)
  have idle: "t_data (idle_in 2) = Pending"
    by (simp add: idle_in_def)
  have a1: "apply_oscillators test_env (t_fft (idle_in 2)) test_app = test_app"
    by (simp add: apply_oscillators_def test_env_def test_app_def)
  have evicted: "handle_websocket_data test_args test_env True 0 (?pre @ idle_in 12 # [idle_in 13]) test_app
      = (test_app, [SendJson send_frame_msg, SendJson send_frame_msg] @ [SendJson timeout_msg, Disconnect],
         Returned)"
    using timeout_checked_at_iteration_start [OF pre, of 1 "idle_in 12" "[idle_in 13]", THEN conjunct1]
          pos since gap
    by blast
  have blocked: "handle_websocket_data test_args test_env True 0 (?pre @ idle_in 2 # [idle_in 13]) test_app
      = (apply_oscillators test_env (t_fft (idle_in 2)) test_app,
         [SendJson send_frame_msg, SendJson send_frame_msg], Blocked)"
    using timeout_checked_at_iteration_start [OF pre, of 1 "idle_in 2" "[idle_in 13]", THEN conjunct2]
          early idle
    by blast
  show ?thesis
    using evicted blocked by (simp only: a1 append.simps)
qed

section \<open>Facts about one iteration of the streaming loop\<close>

lemma stream_tick_same:
  "stream_tick cfg env firefox (Some p) (a, p) = ((a, p), [Send send_frame_msg, Sleep], Continue)"
  by (simp add: stream_tick_def)

lemma stream_tick_new:
  assumes "p \<noteq> last_params"
  shows "\<exists>a' frs. stream_tick cfg env firefox (Some p) (a, last_params)
           = ((a', p), [Send send_frame_msg, Predict p] @ map Yield frs, Continue)"
proof (cases "arg_safety_checker cfg")
  case True
  obtain checked flag where chk: "run_safety_checker env (predict env p) = (checked, flag)"
    by (cases "run_safety_checker env (predict env p)") auto
  show ?thesis
  proof (cases "flag \<or> checked = None")
    case True
    then have "stream_tick cfg env firefox (Some p) (a, last_params)
        = ((a, p), [Send send_frame_msg, Predict p] @ map Yield [], Continue)"
      using assms \<open>arg_safety_checker cfg\<close> chk by (auto simp add: stream_tick_def)
    then show ?thesis by blast
  next
    case False
    then obtain img where img: "checked = Some img" and ok: "\<not> flag" by auto
    let ?fr = "pil_to_frame env img"
    have "stream_tick cfg env firefox (Some p) (a, last_params)
        = ((if use_acid_processor a then acid_update img a else a, p),
           [Send send_frame_msg, Predict p] @ map Yield (if firefox then [?fr] else [?fr, ?fr]), Continue)"
      using assms \<open>arg_safety_checker cfg\<close> chk img ok by (simp add: stream_tick_def Let_def)
    then show ?thesis by blast
  qed
next
  case False
  show ?thesis
  proof (cases "predict env p")
    case None
    then have "stream_tick cfg env firefox (Some p) (a, last_params)
        = ((a, p), [Send send_frame_msg, Predict p] @ map Yield [], Continue)"
      using assms False by (simp add: stream_tick_def)
    then show ?thesis by blast
  next
    case (Some img)
    let ?fr = "pil_to_frame env img"
    have "stream_tick cfg env firefox (Some p) (a, last_params)
        = ((if use_acid_processor a then acid_update img a else a, p),
           [Send send_frame_msg, Predict p] @ map Yield (if firefox then [?fr] else [?fr, ?fr]), Continue)"
      using assms False Some by (simp add: stream_tick_def Let_def)
    then show ?thesis by blast
  qed
qed

lemma invocations_append: "invocations (xs @ ys) = invocations xs + invocations ys"
  by (simp add: invocations_def)

lemma invocations_yields: "invocations (map Yield frs) = 0"
  by (induction frs) (simp_all add: invocations_def)

section \<open>The same parameters read twice\<close>

text \<open>
  C3. When two reads in a row yield the same parameter set, the second read
  never invokes the pipeline: it sends the \<open>send_frame\<close> request, sleeps for
  the throttle interval and goes round again. If the set is a new one at the
  first read (it differs from the one processed last), the two iterations
  together invoke the pipeline exactly once.
\<close>

theorem equal_reads_invoke_once:
  "invocations (fst (snd (stream_tick cfg env firefox (Some p) (a, p)))) = 0
   \<and> (p \<noteq> last_params \<longrightarrow>
        invocations (fst (snd (stream_loop cfg env firefox [Some p, Some p] (a, last_params)))) = 1
        \<and> fst (snd (stream_loop cfg env firefox [Some p, Some p] (a, last_params)))
            = fst (snd (stream_tick cfg env firefox (Some p) (a, last_params))) @ [Send send_frame_msg, Sleep]
        \<and> snd (snd (stream_loop cfg env firefox [Some p, Some p] (a, last_params))) = Continue)"
proof -
  have same: "invocations (fst (snd (stream_tick cfg env firefox (Some p) (a, p)))) = 0"
    by (simp add: stream_tick_same invocations_def)
  have twice: "invocations (fst (snd (stream_loop cfg env firefox [Some p, Some p] (a, last_params)))) = 1
        \<and> fst (snd (stream_loop cfg env firefox [Some p, Some p] (a, last_params)))
            = fst (snd (stream_tick cfg env firefox (Some p) (a, last_params))) @ [Send send_frame_msg, Sleep]
        \<and> snd (snd (stream_loop cfg env firefox [Some p, Some p] (a, last_params))) = Continue"
    if new: "p \<noteq> last_params"
  proof -
    obtain a' frs where first: "stream_tick cfg env firefox (Some p) (a, last_params)
        = ((a', p), [Send send_frame_msg, Predict p] @ map Yield frs, Continue)"
      using stream_tick_new [OF new] by blast
    have run: "stream_loop cfg env firefox [Some p, Some p] (a, last_params)
        = ((a', p), ([Send send_frame_msg, Predict p] @ map Yield frs) @ [Send send_frame_msg, Sleep], Continue)"
      by (simp add: first stream_tick_same)
    have count: "invocations (([Send send_frame_msg, Predict p] @ map Yield frs) @ [Send send_frame_msg, Sleep]) = 1"
      by (simp add: invocations_append invocations_yields) (simp add: invocations_def)
    show ?thesis
      using run first count by simp
  qed
  show ?thesis using same twice by blast
qed

theorem equal_reads_invoke_once_witness:
  "some_params \<noteq> (empty_namespace :: nat namespace)
   \<and> invocations (fst (snd (generate test_args test_env False [Some some_params, Some some_params] test_app))) = 1
   \<and> fst (snd (generate test_args test_env False [Some some_params, Some some_params] test_app))
       = [Send send_frame_msg, Predict some_params, Yield [1], Yield [1], Send send_frame_msg, Sleep]"
proof -
  have new: "some_params \<noteq> (empty_namespace :: nat namespace)"
    by (simp add: some_params_def empty_namespace_def)
  have first: "stream_tick test_args test_env False (Some some_params) (test_app, empty_namespace)
      = ((acid_update 1 test_app, some_params),
         [Send send_frame_msg, Predict some_params, Yield [1], Yield [1]], Continue)"
    using new by (simp add: stream_tick_def test_args_def test_env_def test_app_def Let_def some_params_def)
  note t = equal_reads_invoke_once [of test_args test_env False some_params test_app empty_namespace]
  have c1: "invocations (fst (snd (stream_loop test_args test_env False [Some some_params, Some some_params]
              (test_app, empty_namespace)))) = 1"
    using t new by blast
  have c2: "fst (snd (stream_loop test_args test_env False [Some some_params, Some some_params]
              (test_app, empty_namespace)))
            = fst (snd (stream_tick test_args test_env False (Some some_params) (test_app, empty_namespace)))
                @ [Send send_frame_msg, Sleep]"
    using t new by blast
  have c3: "fst (snd (stream_loop test_args test_env False [Some some_params, Some some_params]
              (test_app, empty_namespace)))
            = [Send send_frame_msg, Predict some_params, Yield [1], Yield [1], Send send_frame_msg, Sleep]"
    by (simp only: c2 first fst_conv snd_conv append.simps)
  show ?thesis
    unfolding generate_def using new c1 c3 by blast
qed

section \<open>An empty slot\<close>

text \<open>
  C6. When the slot read yields \<open>None\<close>, line 285 evaluates
  \<open>params.__dict__\<close> first and raises \<open>AttributeError\<close>: the iteration does
  not sleep and the loop does not go round again. The pipeline is not invoked.
\<close>

theorem empty_slot_raises:
  "stream_tick cfg env firefox None (a, last_params)
     = ((a, last_params), [Send send_frame_msg], Failed AttributeError)
   \<and> generate cfg env firefox (None # slots) a
       = ((a, empty_namespace), [Send send_frame_msg], Failed AttributeError)"
  by (simp add: stream_tick_def generate_def)

section \<open>A result flagged by the safety checker\<close>

text \<open>
  C8. With the safety checker enabled, an iteration that reads a new
  parameter set and whose result the checker flags yields no frame and leaves
  the App state, the feedback buffer included, as it was. The iteration ends
  in \<open>Continue\<close>: the loop carries on with the next read, with the flagged
  set remembered as the last one processed.
\<close>

theorem flagged_result_is_suppressed:
  assumes "arg_safety_checker cfg" and "p \<noteq> last_params"
      and "snd (run_safety_checker env (predict env p))"
  shows "stream_tick cfg env firefox (Some p) (a, last_params)
           = ((a, p), [Send send_frame_msg, Predict p], Continue)
         \<and> frames (fst (snd (stream_tick cfg env firefox (Some p) (a, last_params)))) = []
         \<and> stream_loop cfg env firefox (Some p # slots) (a, last_params)
             = (case stream_loop cfg env firefox slots (a, p) of
                  (st, evs, r) \<Rightarrow> (st, [Send send_frame_msg, Predict p] @ evs, r))"
proof -
  have tick: "stream_tick cfg env firefox (Some p) (a, last_params)
           = ((a, p), [Send send_frame_msg, Predict p], Continue)"
  proof -
    obtain checked where "run_safety_checker env (predict env p) = (checked, True)"
      using assms(3) by (cases "run_safety_checker env (predict env p)") auto
    then show ?thesis
      using assms(1,2) by (simp add: stream_tick_def)
  qed
  show ?thesis
    by (simp add: tick frames_def split: prod.splits)
qed

theorem flagged_result_is_suppressed_witness:
  "generate strict_args flagging_env False [Some some_params, Some some_params] test_app
     = ((test_app, some_params), [Send send_frame_msg, Predict some_params, Send send_frame_msg, Sleep], Continue)"
proof -
  have h1: "arg_safety_checker strict_args"
    by (simp add: strict_args_def)
  have h2: "some_params \<noteq> (empty_namespace :: nat namespace)"
    by (simp add: some_params_def empty_namespace_def)
  have h3: "snd (run_safety_checker flagging_env (predict flagging_env some_params))"
    by (simp add: flagging_env_def)
  show ?thesis
    using flagged_result_is_suppressed [OF h1 h2 h3, of False test_app "[Some some_params]"]
    by (simp add: generate_def stream_tick_same)
qed

section \<open>One modulation state for all sessions\<close>

lemma srv_app_session_tick:
  "srv_app (session_tick cfg env u t inp srv) = fst (control_tick cfg env t inp (srv_app srv))"
  by (simp add: session_tick_def split: prod.splits)

lemma srv_calls_session_tick_other:
  "u' \<noteq> u \<Longrightarrow> srv_calls (session_tick cfg env u t inp srv) u' = srv_calls srv u'"
  by (simp add: session_tick_def split: prod.splits)

lemma direct_zoom_after_tick:
  assumes "use_acid_processor a"
      and "\<not> expired cfg t (t_now inp)"
      and "t_data inp = Got d" and "subscript d ''status'' = Inr (JStr ''next_frame'')"
      and "t_params inp = Got m" and "p_acid_settings m = Some s"
      and "has_key ''zoom_factor'' s" and "\<not> has_key ''binned_fft'' s"
  shows "resolved_zoom (fst (control_tick cfg env t inp a)) = get s ''zoom_factor''"
proof -
  let ?a1 = "apply_oscillators env (t_fft inp) a"
  have acid: "use_acid_processor ?a1"
    using assms(1) by (simp add: apply_oscillators_use_acid)
  have "fst (control_tick cfg env t inp a) = fuse env m ?a1"
    using assms(2,3,4,5) by (rule fst_control_tick_next_frame)
  also have "\<dots> = apply_acid_settings env s ?a1"
    using assms(6) acid by (simp add: fuse_def)
  finally show ?thesis
    using apply_acid_settings_direct [OF acid assms(7,8)] by simp
qed

lemma zoom_kept_by_plain_tick:
  assumes "\<not> expired cfg t (t_now inp)"
      and "t_data inp = Got d" and "subscript d ''status'' = Inr (JStr ''next_frame'')"
      and "t_params inp = Got m" and "p_acid_settings m = None"
      and "\<not> zo_enabled env (zoom_oscillator a)"
      and "\<not> fc_enabled env (frequency_zoom_controller a)"
  shows "resolved_zoom (fst (control_tick cfg env t inp a)) = resolved_zoom a"
proof -
  have "fst (control_tick cfg env t inp a) = fuse env m (apply_oscillators env (t_fft inp) a)"
    using assms(1,2,3,4) by (rule fst_control_tick_next_frame)
  also have "\<dots> = apply_oscillators env (t_fft inp) a"
    using assms(5) by (simp add: fuse_def)
  finally show ?thesis
    using apply_oscillators_zoom_idle [OF assms(6,7)] by simp
qed

lemma zoom_crosses_sessions:
  assumes "use_acid_processor (srv_app srv)"
      and "\<not> expired cfg t1 (t_now inp1)"
      and "t_data inp1 = Got d1" and "subscript d1 ''status'' = Inr (JStr ''next_frame'')"
      and "t_params inp1 = Got m1" and "p_acid_settings m1 = Some s"
      and "has_key ''zoom_factor'' s" and "\<not> has_key ''binned_fft'' s"
      and "\<not> expired cfg t2 (t_now inp2)"
      and "t_data inp2 = Got d2" and "subscript d2 ''status'' = Inr (JStr ''next_frame'')"
      and "t_params inp2 = Got m2" and "p_acid_settings m2 = None"
      and "\<not> zo_enabled env (zoom_oscillator (srv_app (session_tick cfg env u1 t1 inp1 srv)))"
      and "\<not> fc_enabled env (frequency_zoom_controller (srv_app (session_tick cfg env u1 t1 inp1 srv)))"
  shows "resolved_zoom (srv_app (session_tick cfg env u2 t2 inp2 (session_tick cfg env u1 t1 inp1 srv)))
           = get s ''zoom_factor''"
proof -
  let ?srv1 = "session_tick cfg env u1 t1 inp1 srv"
  have one: "resolved_zoom (srv_app ?srv1) = get s ''zoom_factor''"
    using direct_zoom_after_tick [OF assms(1-8)] by (simp add: srv_app_session_tick)
  have "resolved_zoom (srv_app (session_tick cfg env u2 t2 inp2 ?srv1)) = resolved_zoom (srv_app ?srv1)"
    using zoom_kept_by_plain_tick [OF assms(9-15)] by (simp add: srv_app_session_tick)
  then show ?thesis using one by simp
qed

lemma direct_tick_leaves_sources_idle:
  "\<not> zo_enabled test_env (zoom_oscillator
        (fst (control_tick test_args test_env 0 (next_frame_in 1 (Some direct_settings) [5]) test_app)))
   \<and> \<not> fc_enabled test_env (frequency_zoom_controller
        (fst (control_tick test_args test_env 0 (next_frame_in 1 (Some direct_settings) [5]) test_app)))"
proof -
  let ?i1 = "next_frame_in 1 (Some direct_settings) [5]"
  let ?d = "JObj [(''status'', JStr ''next_frame'')]"
  let ?m1 = "\<lparr>p_acid_settings = Some direct_settings, p_fields = [(''prompt'', JStr ''a'')]\<rparr>"
  have acid: "use_acid_processor test_app"
    by (simp add: test_app_def)
  have e1: "\<not> expired test_args 0 (t_now ?i1)"
    by (simp add: expired_def test_args_def next_frame_in_def)
  have d1: "t_data ?i1 = Got ?d"
    by (simp add: next_frame_in_def)
  have st: "subscript ?d ''status'' = Inr (JStr ''next_frame'')"
    by simp
  have p1: "t_params ?i1 = Got ?m1"
    by (simp add: next_frame_in_def)
  have k2: "\<not> has_key ''binned_fft'' direct_settings"
    by (simp add: has_key_def direct_settings_def)
  have a1: "apply_oscillators test_env (t_fft ?i1) test_app = test_app"
    by (simp add: apply_oscillators_def test_env_def test_app_def)
  have tick: "fst (control_tick test_args test_env 0 ?i1 test_app)
            = fuse test_env ?m1 (apply_oscillators test_env (t_fft ?i1) test_app)"
    using e1 d1 st p1 by (rule fst_control_tick_next_frame)
  have "zoom_oscillator (fst (control_tick test_args test_env 0 ?i1 test_app))
            = zoom_oscillator (update_acid_settings test_env direct_settings test_app)"
    using tick acid by (simp add: a1 fuse_def apply_acid_settings_frame)
  also have "\<dots> = zoom_oscillator test_app"
    using acid by (simp add: update_acid_settings_zoom_oscillator direct_settings_def)
  finally have osc: "zoom_oscillator (fst (control_tick test_args test_env 0 ?i1 test_app)) = (False, 7)"
    by (simp add: test_app_def)
  have "frequency_zoom_controller (fst (control_tick test_args test_env 0 ?i1 test_app))
            = frequency_zoom_controller (update_acid_settings test_env direct_settings test_app)"
    using tick acid k2 by (simp add: a1 fuse_def apply_acid_settings_def)
  also have "\<dots> = frequency_zoom_controller test_app"
    using acid
    by (simp add: update_acid_settings_controller) (simp add: has_key_def direct_settings_def)
  finally have ctl: "frequency_zoom_controller (fst (control_tick test_args test_env 0 ?i1 test_app)) = (False, 0)"
    by (simp add: test_app_def)
  show ?thesis
    using osc ctl by (simp add: test_env_def)
qed

text \<open>
  C4, as stated, fails. Session 1 sends a direct zoom of 3; session 2 then
  sends a frame with no settings at all. The zoom resolved for session 2 is
  3; had session 1 sent nothing it would be the initial 1.
\<close>

theorem other_session_sees_zoom:
  "resolved_zoom (srv_app (session_tick test_args test_env 2 0 (next_frame_in 1 None [5])
      (session_tick test_args test_env 1 0 (next_frame_in 1 (Some direct_settings) [5]) test_server)))
     = JNum 3
   \<and> resolved_zoom (srv_app (session_tick test_args test_env 2 0 (next_frame_in 1 None [5]) test_server))
     = JNum 1"
proof -
  let ?i1 = "next_frame_in 1 (Some direct_settings) [5]"
  let ?i2 = "next_frame_in 1 None [5]"
  let ?d = "JObj [(''status'', JStr ''next_frame'')]"
  let ?m1 = "\<lparr>p_acid_settings = Some direct_settings, p_fields = [(''prompt'', JStr ''a'')]\<rparr>"
  let ?m2 = "\<lparr>p_acid_settings = None, p_fields = [(''prompt'', JStr ''a'')]\<rparr>"
  have acid: "use_acid_processor (srv_app test_server)"
    by (simp add: test_server_def test_app_def)
  have e1: "\<not> expired test_args 0 (t_now ?i1)" and e2: "\<not> expired test_args 0 (t_now ?i2)"
    by (simp_all add: expired_def test_args_def next_frame_in_def)
  have d1: "t_data ?i1 = Got ?d" and d2: "t_data ?i2 = Got ?d"
    by (simp_all add: next_frame_in_def)
  have st: "subscript ?d ''status'' = Inr (JStr ''next_frame'')"
    by simp
  have p1: "t_params ?i1 = Got ?m1" and p2: "t_params ?i2 = Got ?m2"
    by (simp_all add: next_frame_in_def)
  have s1: "p_acid_settings ?m1 = Some direct_settings" and s2: "p_acid_settings ?m2 = None"
    by simp_all
  have k1: "has_key ''zoom_factor'' direct_settings" and k2: "\<not> has_key ''binned_fft'' direct_settings"
    by (simp_all add: has_key_def direct_settings_def)
  have app: "srv_app test_server = test_app"
    by (simp add: test_server_def)
  have q1: "\<not> zo_enabled test_env (zoom_oscillator (srv_app (session_tick test_args test_env 1 0 ?i1 test_server)))"
    using direct_tick_leaves_sources_idle by (simp add: srv_app_session_tick app)
  have q2: "\<not> fc_enabled test_env
              (frequency_zoom_controller (srv_app (session_tick test_args test_env 1 0 ?i1 test_server)))"
    using direct_tick_leaves_sources_idle by (simp add: srv_app_session_tick app)
  have with_first: "resolved_zoom (srv_app (session_tick test_args test_env 2 0 ?i2
      (session_tick test_args test_env 1 0 ?i1 test_server))) = get direct_settings ''zoom_factor''"
    using acid e1 d1 st p1 s1 k1 k2 e2 d2 st p2 s2 q1 q2 by (rule zoom_crosses_sessions)
  have r1: "\<not> zo_enabled test_env (zoom_oscillator (srv_app test_server))"
    and r2: "\<not> fc_enabled test_env (frequency_zoom_controller (srv_app test_server))"
    by (simp_all add: test_server_def test_app_def test_env_def)
  have alone: "resolved_zoom (srv_app (session_tick test_args test_env 2 0 ?i2 test_server))
      = resolved_zoom (srv_app test_server)"
    using zoom_kept_by_plain_tick [OF e2 d2 st p2 s2 r1 r2] by (simp add: srv_app_session_tick)
  have v1: "get direct_settings ''zoom_factor'' = JNum 3"
    by (simp add: get_def direct_settings_def)
  have v2: "resolved_zoom (srv_app test_server) = JNum 1"
    by (simp add: resolved_zoom_def test_server_def test_app_def)
  show ?thesis
    using with_first alone v1 v2 by simp
qed

text \<open>
  C4, amended. The modulation state belongs to the one App that every
  session's control loop runs against. An iteration for any user starts from
  the state the previous iteration left, whichever user that was for. So a
  direct zoom set by a message of user \<open>u1\<close> is the zoom resolved in the
  next iteration of user \<open>u2\<close>, when that iteration brings no settings of
  its own and neither the zoom oscillator nor the frequency zoom controller
  is enabled. Only the calls on the connection are kept apart per user.
\<close>

theorem modulation_state_is_shared:
  assumes "use_acid_processor (srv_app srv)"
      and "\<not> expired cfg t1 (t_now inp1)"
      and "t_data inp1 = Got d1" and "subscript d1 ''status'' = Inr (JStr ''next_frame'')"
      and "t_params inp1 = Got m1" and "p_acid_settings m1 = Some s"
      and "has_key ''zoom_factor'' s" and "\<not> has_key ''binned_fft'' s"
      and "\<not> expired cfg t2 (t_now inp2)"
      and "t_data inp2 = Got d2" and "subscript d2 ''status'' = Inr (JStr ''next_frame'')"
      and "t_params inp2 = Got m2" and "p_acid_settings m2 = None"
      and "\<not> zo_enabled env (zoom_oscillator (srv_app (session_tick cfg env u1 t1 inp1 srv)))"
      and "\<not> fc_enabled env (frequency_zoom_controller (srv_app (session_tick cfg env u1 t1 inp1 srv)))"
      and "u1 \<noteq> u2"
  shows "resolved_zoom (srv_app (session_tick cfg env u2 t2 inp2 (session_tick cfg env u1 t1 inp1 srv)))
           = get s ''zoom_factor''
         \<and> srv_app (session_tick cfg env u2 t2 inp2 (session_tick cfg env u1 t1 inp1 srv))
           = fst (control_tick cfg env t2 inp2 (fst (control_tick cfg env t1 inp1 (srv_app srv))))
         \<and> srv_calls (session_tick cfg env u1 t1 inp1 srv) u2 = srv_calls srv u2"
  using zoom_crosses_sessions [OF assms(1-15)] srv_calls_session_tick_other [OF assms(16) [symmetric]]
  by (simp add: srv_app_session_tick)

theorem modulation_state_is_shared_witness:
  "(7::nat) \<noteq> 8
   \<and> resolved_zoom (srv_app test_server) = JNum 1
   \<and> resolved_zoom (srv_app (session_tick test_args test_env 8 0 (next_frame_in 1 None [5])
        (session_tick test_args test_env 7 0 (next_frame_in 1 (Some direct_settings) [5]) test_server)))
       = JNum 3"
proof -
  let ?i1 = "next_frame_in 1 (Some direct_settings) [5]"
  let ?i2 = "next_frame_in 1 None [5]"
  let ?d = "JObj [(''status'', JStr ''next_frame'')]"
  let ?m1 = "\<lparr>p_acid_settings = Some direct_settings, p_fields = [(''prompt'', JStr ''a'')]\<rparr>"
  let ?m2 = "\<lparr>p_acid_settings = None, p_fields = [(''prompt'', JStr ''a'')]\<rparr>"
  have app: "srv_app test_server = test_app"
    by (simp add: test_server_def)
  have acid: "use_acid_processor (srv_app test_server)"
    by (simp add: test_server_def test_app_def)
  have e1: "\<not> expired test_args 0 (t_now ?i1)" and e2: "\<not> expired test_args 0 (t_now ?i2)"
    by (simp_all add: expired_def test_args_def next_frame_in_def)
  have d1: "t_data ?i1 = Got ?d" and d2: "t_data ?i2 = Got ?d"
    by (simp_all add: next_frame_in_def)
  have st: "subscript ?d ''status'' = Inr (JStr ''next_frame'')"
    by simp
  have p1: "t_params ?i1 = Got ?m1" and p2: "t_params ?i2 = Got ?m2"
    by (simp_all add: next_frame_in_def)
  have s1: "p_acid_settings ?m1 = Some direct_settings" and s2: "p_acid_settings ?m2 = None"
    by simp_all
  have k1: "has_key ''zoom_factor'' direct_settings" and k2: "\<not> has_key ''binned_fft'' direct_settings"
    by (simp_all add: has_key_def direct_settings_def)
  have q1: "\<not> zo_enabled test_env (zoom_oscillator (srv_app (session_tick test_args test_env 7 0 ?i1 test_server)))"
    using direct_tick_leaves_sources_idle by (simp add: srv_app_session_tick app)
  have q2: "\<not> fc_enabled test_env
              (frequency_zoom_controller (srv_app (session_tick test_args test_env 7 0 ?i1 test_server)))"
    using direct_tick_leaves_sources_idle by (simp add: srv_app_session_tick app)
  have ne: "(7::nat) \<noteq> 8"
    by simp
  have v0: "resolved_zoom (srv_app test_server) = JNum 1"
    by (simp add: resolved_zoom_def test_server_def test_app_def)
  have v1: "get direct_settings ''zoom_factor'' = JNum 3"
    by (simp add: get_def direct_settings_def)
  have "resolved_zoom (srv_app (session_tick test_args test_env 8 0 ?i2
          (session_tick test_args test_env 7 0 ?i1 test_server))) = get direct_settings ''zoom_factor''"
    using modulation_state_is_shared [OF acid e1 d1 st p1 s1 k1 k2 e2 d2 st p2 s2 q1 q2 ne]
    by (rule conjunct1)
  then show ?thesis
    using ne v0 v1 by simp
qed

end
